theory Spec2Isabelle
  imports Complex_Main "HOL-Library.Multiset"
begin

section \<open>Morphing of source estimates (mne/morph.py)\<close>

text \<open>
  A shallow embedding of \<^verbatim>\<open>mne/morph.py\<close>: the vertex resolver
  \<^verbatim>\<open>grade_to_vertices\<close>, the diffusion smoother \<^verbatim>\<open>_morph_buffer\<close> with its helper
  \<^verbatim>\<open>_morph_mult\<close>, the assembler \<^verbatim>\<open>_compute_morph_matrix\<close>, the builder
  \<^verbatim>\<open>compute_source_morph\<close>, the operator class \<^verbatim>\<open>SourceMorph\<close> with \<^verbatim>\<open>__call__\<close>,
  \<^verbatim>\<open>as_volume\<close>, \<^verbatim>\<open>save\<close> and \<^verbatim>\<open>read_source_morph\<close>, and \<^verbatim>\<open>_apply_morph_data\<close> with
  the volume functions \<^verbatim>\<open>_interpolate_data\<close>, \<^verbatim>\<open>_get_zooms_orig\<close> and \<^verbatim>\<open>_stc_as_volume\<close>.

  Conventions. A Python name that starts with an underscore loses it
  (\<open>morph_buffer\<close> is \<^verbatim>\<open>_morph_buffer\<close>); where the public function has the same name,
  the private one keeps a \<open>u_\<close> in its place. Floating-point values are read as exact
  rationals: every property below is about which rows are multiplied, selected and
  divided by what, not about rounding. Sparse and dense matrices are both a column count
  with a list of rows; the flag \<open>use_sparse\<close> keeps the code path. Vertex numbers and
  index arrays are natural numbers. Logging and non-fatal warnings are left out. Every
  exception of the source is a value of type \<open>error\<close>. What the file obtains from
  functions defined elsewhere (surfaces, morph maps, mesh edges, the nearest-neighbour
  search, nibabel and dipy) is a parameter of the function that uses it.
\<close>

subsection \<open>Values\<close>

text \<open>
  The volume attributes, which nibabel and dipy compute, and a grade that is neither
  None, an int nor a list are \<open>pyval\<close>s: tuples and lists are sequences, and an array of
  numpy with any number of dimensions is its shape with its entries in C order. An
  instance of a class is its class name with its \<^verbatim>\<open>__dict__\<close>. A list of
  per-hemisphere vertex arrays is an object with an address, see the store below.
\<close>

type_synonym addr = nat

datatype ndarray = NdArray (nd_shape: "nat list") (nd_items: "rat list")

datatype pyval =
    PNone
  | PInt int
  | PNum rat
  | PBool bool
  | PStr string
  | PSeq "pyval list"
  | PDict "(string \<times> pyval) list"
  | PArr ndarray

datatype pyobj = PyObj (cls: string) (attrs: pyval)

datatype grade = GradeNone | GradeInt int | GradeList addr | GradeOther pyval

subsection \<open>Errors\<close>

datatype error =
    SmoothTooSmall
      \<comment> \<open>ValueError: The number of smoothing operations ("smooth") has to be at least 1.\<close>
  | EmptyMorphMatrix
      \<comment> \<open>ValueError: Empty morph-matrix\<close>
  | GradeListLength
      \<comment> \<open>ValueError: grade as a list must have two elements\<close>
  | RepeatedVertices grade string nat
      \<comment> \<open>ValueError: Cannot use icosahedral grade .. with subject .., mapping .. vertices ..\<close>
  | SubjectMismatch
      \<comment> \<open>ValueError: stc.subject and morph.subject_from must match\<close>
  | VerticesMismatch nat
      \<comment> \<open>ValueError: vertices do not match between morph and stc for the .. hemisphere\<close>
  | SparseSpacing
      \<comment> \<open>RuntimeError: spacing must be set to None if sparse=True.\<close>
  | DimensionMismatch
      \<comment> \<open>ValueError of scipy/numpy: shapes of the operands do not fit\<close>
  | SrcMissing
      \<comment> \<open>ValueError: src must be supplied, got None\<close>
  | SrcType
      \<comment> \<open>TypeError: src must be an instance of SourceSpaces or SourceEstimate\<close>
  | SubjectFromMismatch
      \<comment> \<open>ValueError: subject_from does not match source space subject\<close>
  | SubjectFromMissing
      \<comment> \<open>ValueError: subject_from could not be inferred, it must be specified\<close>
  | XhemiNotSurface
      \<comment> \<open>ValueError: Inter-hemispheric morphing can only be used with surface source estimates.\<close>
  | SparseNotSurface
      \<comment> \<open>ValueError: Only surface source estimates can compute a sparse morph.\<close>
  | VolumeOnly
      \<comment> \<open>ValueError: Only volume source estimates can be converted to volumes\<close>
  | InvalidFormat
      \<comment> \<open>ValueError: invalid format .., must be 'nifti1' or 'nifti2'\<close>
  | IndexError
  | TypeError
  | AssertionError
  | IOError
  | KeyError
  | AttributeError
  | ImportError
  | ZeroDivisionError
  | UnboundLocalError
  | NegativeDimensions
      \<comment> \<open>ValueError: negative dimensions are not allowed\<close>

definition and_then :: "error + 'a \<Rightarrow> ('a \<Rightarrow> error + 'b) \<Rightarrow> error + 'b" where
  "and_then m f = (case m of Inl err \<Rightarrow> Inl err | Inr x \<Rightarrow> f x)"

subsection \<open>Vectors and matrices\<close>

type_synonym vec = "rat list"

datatype mat = Mat (ncols: nat) (mrows: "vec list")

definition nrows :: "mat \<Rightarrow> nat" where
  "nrows m = length (mrows m)"

definition wf_mat :: "mat \<Rightarrow> bool" where
  "wf_mat m = list_all (\<lambda>r. length r = ncols m) (mrows m)"

definition zeros :: "nat \<Rightarrow> vec" where
  "zeros n = replicate n 0"

definition in_range :: "nat list \<Rightarrow> nat \<Rightarrow> bool" where
  "in_range idx n = list_all (\<lambda>i. i < n) idx"

definition dot :: "vec \<Rightarrow> vec \<Rightarrow> rat" where
  "dot u v = sum_list (map2 (*) u v)"

definition col :: "mat \<Rightarrow> nat \<Rightarrow> vec" where
  "col m t = map (\<lambda>r. r ! t) (mrows m)"

definition mat_vec :: "mat \<Rightarrow> vec \<Rightarrow> vec" where
  \<comment> \<open>\<^verbatim>\<open>e * mult\<close> for a vector of length \<^verbatim>\<open>e.shape[1]\<close>\<close>
  "mat_vec e v = map (\<lambda>r. dot r v) (mrows e)"

definition mat_mul :: "mat \<Rightarrow> mat \<Rightarrow> error + mat" where
  \<comment> \<open>\<^verbatim>\<open>a * b\<close> of scipy.sparse: the inner dimensions must agree\<close>
  "mat_mul a b =
     (if ncols a \<noteq> nrows b then Inl DimensionMismatch
      else Inr (Mat (ncols b) (map (\<lambda>r. map (\<lambda>t. dot r (col b t)) [0..<ncols b]) (mrows a))))"

definition sel_rows :: "mat \<Rightarrow> nat list \<Rightarrow> error + mat" where
  \<comment> \<open>\<^verbatim>\<open>m[idx]\<close> and \<^verbatim>\<open>m[idx, :]\<close>\<close>
  "sel_rows m idx =
     (if in_range idx (nrows m) then Inr (Mat (ncols m) (map (\<lambda>i. mrows m ! i) idx))
      else Inl IndexError)"

definition sel_cols :: "mat \<Rightarrow> nat list \<Rightarrow> error + mat" where
  \<comment> \<open>\<^verbatim>\<open>e[:, idx]\<close>\<close>
  "sel_cols e idx =
     (if in_range idx (ncols e) then Inr (Mat (length idx) (map (\<lambda>r. map (\<lambda>i. r ! i) idx) (mrows e)))
      else Inl IndexError)"

definition vec_sel :: "vec \<Rightarrow> nat list \<Rightarrow> vec" where
  \<comment> \<open>\<^verbatim>\<open>data_sum[idx_use]\<close>, used in the source only with indices taken from
      \<^verbatim>\<open>np.where(data_sum)\<close>\<close>
  "vec_sel v idx = map (\<lambda>i. v ! i) idx"

definition where_nz :: "vec \<Rightarrow> nat list" where
  \<comment> \<open>\<^verbatim>\<open>np.where(data_sum)[0]\<close>\<close>
  "where_nz v = filter (\<lambda>i. v ! i \<noteq> 0) [0..<length v]"

definition div_rows :: "mat \<Rightarrow> vec \<Rightarrow> mat" where
  \<comment> \<open>row \<open>i\<close> divided by \<open>ds ! i\<close>: \<^verbatim>\<open>data /= ds[:, None]\<close>, and for a CSR matrix
      \<^verbatim>\<open>data.data /= ds.repeat(np.diff(data.indptr))\<close>\<close>
  "div_rows m ds = Mat (ncols m) (map2 (\<lambda>r d. map (\<lambda>x. x / d) r) (mrows m) ds)"

definition eye :: "nat \<Rightarrow> mat" where
  \<comment> \<open>\<^verbatim>\<open>sparse.eye(n, n)\<close>\<close>
  "eye n = Mat n (map (\<lambda>i. map (\<lambda>j. if i = j then 1 else 0) [0..<n]) [0..<n])"

definition arange :: "nat \<Rightarrow> nat list" where
  "arange n = [0..<n]"

subsection \<open>The store of vertex-list objects\<close>

text \<open>
  A Python list of per-hemisphere vertex arrays is an object: \<^verbatim>\<open>grade_to_vertices\<close>
  hands back the caller's own list when \<^verbatim>\<open>grade\<close> is a list, and
  \<^verbatim>\<open>_compute_morph_matrix\<close> reverses its \<^verbatim>\<open>vertices_to\<close> argument in place. The store
  maps the address of each such list to its current content; the arrays inside are
  never written and are values.
\<close>

record store =
  cells :: "addr \<Rightarrow> nat list list"
  next_free :: addr

definition empty_store :: store where
  "empty_store = \<lparr>cells = (\<lambda>_. []), next_free = 0\<rparr>"

definition alloc :: "store \<Rightarrow> nat list list \<Rightarrow> store \<times> addr" where
  "alloc st v = (st\<lparr>cells := (cells st)(next_free st := v), next_free := Suc (next_free st)\<rparr>,
                 next_free st)"

subsection \<open>Vertex resolver: grade_to_vertices\<close>

fun has_repeat :: "nat list \<Rightarrow> bool" where
  \<comment> \<open>\<^verbatim>\<open>(np.diff(verts) == 0).any()\<close>\<close>
  "has_repeat (x # y # ys) = (y = x \<or> has_repeat (y # ys))"
| "has_repeat _ = False"

text \<open>
  \<^verbatim>\<open>read_surface\<close>, \<^verbatim>\<open>_get_ico_tris\<close> and \<^verbatim>\<open>_compute_nearest\<close> are not part of the
  file. Of the two surfaces only the vertex counts \<open>n_surf\<close> are used; \<open>nearest\<close> is
  what \<^verbatim>\<open>_compute_nearest(xhs, rr)\<close> returns for the left and the right sphere: for every
  vertex of the icosahedron the index of the closest vertex of the sphere.
\<close>

definition grade_to_vertices ::
  "store \<Rightarrow> string \<Rightarrow> grade \<Rightarrow> nat \<times> nat \<Rightarrow> nat list \<times> nat list \<Rightarrow> store \<times> (error + addr)" where
  "grade_to_vertices st subject grade n_surf nearest =
     (if subject = ''fsaverage'' \<and> grade = GradeInt 5 then
        (let (st', a) = alloc st [arange 10242, arange 10242] in (st', Inr a))
      else
        (case grade of
           GradeNone \<Rightarrow>
             (let (st', a) = alloc st [arange (fst n_surf), arange (snd n_surf)]
              in (st', Inr a))
         | GradeList a \<Rightarrow>
             if length (cells st a) \<noteq> 2 then (st, Inl GradeListLength) else (st, Inr a)
         | _ \<Rightarrow>
             (let vertices = [sort (fst nearest), sort (snd nearest)] in
              case find has_repeat vertices of
                Some verts \<Rightarrow> (st, Inl (RepeatedVertices grade subject (length verts)))
              | None \<Rightarrow> (let (st', a) = alloc st vertices in (st', Inr a)))))"

subsection \<open>Diffusion smoother: _morph_mult and _morph_buffer\<close>

definition n_iter :: nat where
  \<comment> \<open>max nb of smoothing iterations (minus one)\<close>
  "n_iter = 99"

definition indicator :: "nat \<Rightarrow> nat list \<Rightarrow> vec" where
  \<comment> \<open>\<^verbatim>\<open>mult = np.zeros(n); mult[idx_use] = 1\<close>, for indices below \<open>n\<close>\<close>
  "indicator n idx = foldl (\<lambda>mult i. mult[i := 1]) (zeros n) idx"

definition vsum :: "nat \<Rightarrow> vec list \<Rightarrow> vec" where
  "vsum c rs = foldr (map2 (+)) rs (zeros c)"

definition d_sparse :: "nat \<Rightarrow> nat list \<Rightarrow> mat \<Rightarrow> error + mat" where
  \<comment> \<open>\<^verbatim>\<open>col, row = np.meshgrid(np.arange(data.shape[1]), idx_use_data)\<close> and
      \<^verbatim>\<open>sparse.csr_matrix((data.ravel(), (row.ravel(), col.ravel())), shape=(n, data.shape[1]))\<close>:
      the constructor wants as many values as index pairs and every row index below
      \<open>n\<close>; values that fall on the same position are added up\<close>
  "d_sparse n idx data =
     (if nrows data * ncols data \<noteq> length idx * ncols data then Inl DimensionMismatch
      else if ncols data \<noteq> 0 \<and> \<not> in_range idx n then Inl IndexError
      else Inr (Mat (ncols data)
                 (map (\<lambda>r. vsum (ncols data) (map snd (filter (\<lambda>(i, row). i = r) (zip idx (mrows data)))))
                      [0..<n])))"

definition morph_mult :: "mat \<Rightarrow> mat \<Rightarrow> bool \<Rightarrow> nat list \<Rightarrow> nat list option \<Rightarrow> error + mat" where
  "morph_mult data e use_sparse idx_use_data idx_use_out =
     and_then
       (if length idx_use_data < ncols e then
          (if use_sparse then and_then (sel_cols e idx_use_data) (\<lambda>ec. mat_mul ec data)
           else and_then (d_sparse (ncols e) idx_use_data data) (\<lambda>d. mat_mul e d))
        else mat_mul e data)
       (\<lambda>data'. case idx_use_out of None \<Rightarrow> Inr data' | Some idx \<Rightarrow> sel_rows data' idx)"

record loop_state =
  ls_data :: mat
  ls_idx_use :: "nat list"
  ls_data_sum :: vec
  ls_k :: nat
  ls_done :: bool

text \<open>
  One pass of the body of \<^verbatim>\<open>for k in range(n_iter + 1)\<close>: the row sum, the new active
  set, the test for the last iteration, the multiplication and, unless this is the last
  iteration, the standard normalization. \<open>smooth\<close> is the value after the decrement.
\<close>

definition last_iteration :: "int option \<Rightarrow> nat \<Rightarrow> nat \<Rightarrow> nat list \<Rightarrow> bool" where
  \<comment> \<open>figure out if this is the last iteration; \<open>idx_use\<close> is the new active set\<close>
  "last_iteration smooth n_vertices k idx_use =
     (case smooth of
        None \<Rightarrow> k = n_iter \<or> n_vertices \<le> length idx_use
      | Some s \<Rightarrow> int k = s)"

definition smooth_step ::
  "mat \<Rightarrow> bool \<Rightarrow> int option \<Rightarrow> nat \<Rightarrow> nat \<Rightarrow> mat \<Rightarrow> nat list \<Rightarrow> error + loop_state" where
  "smooth_step e use_sparse smooth n_vertices k data idx_use =
     (if \<not> in_range idx_use (ncols e) then Inl IndexError
      else
        (let mult = indicator (ncols e) idx_use;
             idx_use_data = idx_use;
             data_sum = mat_vec e mult;
             idx_use' = where_nz data_sum;
             finished = last_iteration smooth n_vertices k idx_use';
             idx_out = (if finished then None else Some idx_use')
         in and_then (morph_mult data e use_sparse idx_use_data idx_out)
              (\<lambda>data'. Inr \<lparr>ls_data = (if finished then data'
                                         else div_rows data' (vec_sel data_sum idx_use')),
                             ls_idx_use = idx_use', ls_data_sum = data_sum,
                             ls_k = k, ls_done = finished\<rparr>)))"

function smooth_loop ::
  "mat \<Rightarrow> bool \<Rightarrow> int option \<Rightarrow> nat \<Rightarrow> nat \<Rightarrow> mat \<Rightarrow> nat list \<Rightarrow> error + loop_state" where
  "smooth_loop e use_sparse smooth n_vertices k data idx_use =
     (case smooth_step e use_sparse smooth n_vertices k data idx_use of
        Inl err \<Rightarrow> Inl err
      | Inr st \<Rightarrow>
          if ls_done st \<or> n_iter \<le> k then Inr st
          else smooth_loop e use_sparse smooth n_vertices (Suc k) (ls_data st) (ls_idx_use st))"
  by pat_completeness auto
termination
  by (relation "measure (\<lambda>(e, use_sparse, smooth, n_vertices, k, data, idx_use). n_iter - k)") auto

declare smooth_loop.simps [simp del]

definition final_normalize :: "bool \<Rightarrow> mat \<Rightarrow> nat list \<Rightarrow> vec \<Rightarrow> error + mat" where
  \<comment> \<open>the special normalization for the last iteration\<close>
  "final_normalize use_sparse data idx_use data_sum =
     (if use_sparse then
        (let data_sum' = map (\<lambda>d. if d = 0 then 1 else d) data_sum in
         if nrows data \<noteq> length data_sum' then Inl DimensionMismatch
         else Inr (div_rows data data_sum'))
      else
        (if \<not> in_range idx_use (nrows data) \<or> \<not> in_range idx_use (length data_sum)
         then Inl IndexError
         else Inr (Mat (ncols data)
                    (map (\<lambda>i. if i \<in> set idx_use
                               then map (\<lambda>x. x / data_sum ! i) (mrows data ! i)
                               else mrows data ! i)
                         [0..<nrows data]))))"

definition morph_buffer2 ::
  "bool \<Rightarrow> mat \<Rightarrow> nat list \<Rightarrow> mat \<Rightarrow> int option \<Rightarrow> nat \<Rightarrow> nat list \<Rightarrow> mat \<Rightarrow> error + mat" where
  \<comment> \<open>\<^verbatim>\<open>_morph_buffer\<close> on a buffer with two dimensions\<close>
  "morph_buffer2 use_sparse data idx_use e smooth n_vertices nearest maps =
     (if (case smooth of None \<Rightarrow> False | Some s \<Rightarrow> s \<le> 0) then Inl SmoothTooSmall
      else
        (let smooth' = map_option (\<lambda>s. s - 1) smooth in
         and_then (smooth_loop e use_sparse smooth' n_vertices 0 data idx_use) (\<lambda>st.
         and_then (final_normalize use_sparse (ls_data st) (ls_idx_use st) (ls_data_sum st))
           (\<lambda>data'.
         and_then (sel_rows maps nearest) (\<lambda>m. mat_mul m data')))))"

text \<open>
  An array with three dimensions carries its dtype, a floating-point or an integer type,
  because \<^verbatim>\<open>_morph_buffer\<close> allocates its result with the dtype of its input. The edge
  graph and the morph maps are floating-point matrices, so what the smoother returns on a
  two-dimensional slice is a floating-point matrix whatever the dtype of the slice; writing
  it into an array of an integer type drops the fraction of every entry.
\<close>

datatype dtype = FloatType | IntType

datatype arr3 =
  Arr3 (a3_dtype: dtype) (a3_shape: "nat \<times> nat \<times> nat") (a3_items: "vec list list")

definition to_int :: "rat \<Rightarrow> rat" where
  \<comment> \<open>the conversion of a floating-point value to an integer type: towards zero\<close>
  "to_int x = (if 0 \<le> x then of_int \<lfloor>x\<rfloor> else of_int \<lceil>x\<rceil>)"

definition astype :: "dtype \<Rightarrow> mat \<Rightarrow> mat" where
  \<comment> \<open>a floating-point matrix as it is stored into an array of the given dtype\<close>
  "astype dt m = (case dt of FloatType \<Rightarrow> m
                           | IntType \<Rightarrow> Mat (ncols m) (map (map to_int) (mrows m)))"

definition wf_arr3 :: "arr3 \<Rightarrow> bool" where
  "wf_arr3 a = (case a3_shape a of (n, m, t) \<Rightarrow>
     length (a3_items a) = n \<and>
     list_all (\<lambda>v. length v = m \<and> list_all (\<lambda>r. length r = t) v) (a3_items a) \<and>
     (a3_dtype a = IntType \<longrightarrow>
        list_all (list_all (list_all (\<lambda>x. to_int x = x))) (a3_items a)))"

definition slice3 :: "arr3 \<Rightarrow> nat \<Rightarrow> error + mat" where
  \<comment> \<open>\<^verbatim>\<open>data[:, dim, :]\<close>\<close>
  "slice3 a d = (case a3_shape a of (n, m, t) \<Rightarrow>
     if d < m then Inr (Mat t (map (\<lambda>v. v ! d) (a3_items a))) else Inl IndexError)"

definition stack3 :: "dtype \<Rightarrow> nat \<Rightarrow> nat \<Rightarrow> mat list \<Rightarrow> arr3" where
  \<comment> \<open>the array of the given dtype whose slice \<^verbatim>\<open>[:, dim, :]\<close> holds the \<open>dim\<close>-th
      matrix, converted to that dtype: \<^verbatim>\<open>np.zeros(.., dtype=data.dtype)\<close> filled by the
      assignments \<^verbatim>\<open>data_morphed[:, dim, :] = ..\<close>\<close>
  "stack3 dt n t ms =
     Arr3 dt (n, length ms, t) (map (\<lambda>i. map (\<lambda>m. mrows (astype dt m) ! i) ms) [0..<n])"

datatype buffer = Dense mat | Sparse mat | Dense3 arr3

definition morph_dim ::
  "arr3 \<Rightarrow> nat \<Rightarrow> nat list \<Rightarrow> mat \<Rightarrow> int option \<Rightarrow> nat \<Rightarrow> nat list \<Rightarrow> mat \<Rightarrow> error + mat" where
  \<comment> \<open>the right-hand side of \<^verbatim>\<open>data_morphed[:, dim, :] = _morph_buffer(data[:, dim, :], ..)\<close>;
      the assignment wants the shape of the slice it fills\<close>
  "morph_dim a d idx_use e smooth n_vertices nearest maps =
     and_then (slice3 a d) (\<lambda>s.
     and_then (morph_buffer2 False s idx_use e smooth n_vertices nearest maps) (\<lambda>r.
       if nrows r = length nearest \<and> ncols r = snd (snd (a3_shape a)) then Inr r
       else Inl DimensionMismatch))"

definition morph_buffer ::
  "buffer \<Rightarrow> nat list \<Rightarrow> mat \<Rightarrow> int option \<Rightarrow> nat \<Rightarrow> nat list \<Rightarrow> mat \<Rightarrow> error + buffer" where
  "morph_buffer data idx_use e smooth n_vertices nearest maps =
     (case data of
        Dense3 a \<Rightarrow>
          and_then (morph_dim a 0 idx_use e smooth n_vertices nearest maps) (\<lambda>r0.
          and_then (morph_dim a 1 idx_use e smooth n_vertices nearest maps) (\<lambda>r1.
          and_then (morph_dim a 2 idx_use e smooth n_vertices nearest maps) (\<lambda>r2.
            Inr (Dense3 (stack3 (a3_dtype a) (length nearest) (snd (snd (a3_shape a)))
                           [r0, r1, r2])))))
      | Dense m \<Rightarrow>
          and_then (morph_buffer2 False m idx_use e smooth n_vertices nearest maps)
            (\<lambda>r. Inr (Dense r))
      | Sparse m \<Rightarrow>
          and_then (morph_buffer2 True m idx_use e smooth n_vertices nearest maps)
            (\<lambda>r. Inr (Sparse r)))"

subsection \<open>Morph matrix assembler: _compute_morph_matrix\<close>

definition mat_add :: "mat \<Rightarrow> mat \<Rightarrow> error + mat" where
  "mat_add a b =
     (if nrows a \<noteq> nrows b \<or> ncols a \<noteq> ncols b then Inl DimensionMismatch
      else Inr (Mat (ncols a) (map2 (map2 (+)) (mrows a) (mrows b))))"

definition hemi_edges :: "mat \<Rightarrow> error + mat" where
  \<comment> \<open>\<^verbatim>\<open>e.data[e.data == 2] = 1; n_vertices = e.shape[0]; e = e + sparse.eye(n_vertices, n_vertices)\<close>
      for \<^verbatim>\<open>e = mesh_edges(tris[hemi_from])\<close>\<close>
  "hemi_edges me =
     (let e = Mat (ncols me) (map (map (\<lambda>x. if x = 2 then 1 else x)) (mrows me));
          n_vertices = nrows e
      in mat_add e (eye n_vertices))"

definition pick :: "'a \<times> 'a \<Rightarrow> nat \<Rightarrow> 'a" where
  \<comment> \<open>\<^verbatim>\<open>tris[hemi]\<close> and \<^verbatim>\<open>maps[hemi]\<close> for the hemisphere indices 0 and 1\<close>
  "pick p hemi = (if hemi = 0 then fst p else snd p)"

fun block_diag :: "mat list \<Rightarrow> mat" where
  \<comment> \<open>\<^verbatim>\<open>sparse_block_diag(morpher, format='csr')\<close>\<close>
  "block_diag [] = Mat 0 []"
| "block_diag (m # ms) =
     (let r = block_diag ms in
      Mat (ncols m + ncols r)
        (map (\<lambda>row. row @ zeros (ncols r)) (mrows m) @ map (\<lambda>row. zeros (ncols m) @ row) (mrows r)))"

text \<open>
  \<^verbatim>\<open>mesh_edges\<close> and \<^verbatim>\<open>read_morph_map\<close> are not part of the file: \<open>edges\<close> is the pair
  of \<^verbatim>\<open>mesh_edges(tris[0])\<close> and \<^verbatim>\<open>mesh_edges(tris[1])\<close>, and \<open>maps\<close> the pair that
  \<^verbatim>\<open>read_morph_map(subject_from, subject_to, subjects_dir, xhemi)\<close> returns.
  \<open>hemi_morph\<close> is the body of the loop over \<^verbatim>\<open>hemi_indexes\<close> below its
  \<^verbatim>\<open>continue\<close>, \<open>morph_hemis\<close> the loop that fills the list \<^verbatim>\<open>morpher\<close>.
\<close>

definition hemi_morph ::
  "mat \<times> mat \<Rightarrow> mat \<times> mat \<Rightarrow> nat list \<Rightarrow> nat list list \<Rightarrow> int option \<Rightarrow> nat \<times> nat \<Rightarrow> error + mat" where
  "hemi_morph edges maps idx_use vertices_to smooth hemi =
     (case hemi of (hemi_from, hemi_to) \<Rightarrow>
        and_then (hemi_edges (pick edges hemi_from)) (\<lambda>e.
          let n_vertices = nrows e;
              m = eye (length idx_use)
          in if length vertices_to \<le> hemi_to then Inl IndexError
             else morph_buffer2 True m idx_use e smooth n_vertices
                    (vertices_to ! hemi_to) (pick maps hemi_from)))"

fun morph_hemis ::
  "mat \<times> mat \<Rightarrow> mat \<times> mat \<Rightarrow> nat list list \<Rightarrow> nat list list \<Rightarrow> int option \<Rightarrow>
     (nat \<times> nat) list \<Rightarrow> mat list \<Rightarrow> error + mat list" where
  "morph_hemis edges maps vertices_from vertices_to smooth [] morpher = Inr morpher"
| "morph_hemis edges maps vertices_from vertices_to smooth (hemi # hemis) morpher =
     (if length vertices_from \<le> fst hemi then Inl IndexError
      else
        (let idx_use = vertices_from ! fst hemi in
         if length idx_use = 0
         then morph_hemis edges maps vertices_from vertices_to smooth hemis morpher
         else and_then (hemi_morph edges maps idx_use vertices_to smooth hemi) (\<lambda>mm.
                morph_hemis edges maps vertices_from vertices_to smooth hemis (morpher @ [mm]))))"

definition u_compute_morph_matrix ::
  "store \<Rightarrow> mat \<times> mat \<Rightarrow> mat \<times> mat \<Rightarrow> nat list list \<Rightarrow> addr \<Rightarrow> int option \<Rightarrow> bool \<Rightarrow>
     store \<times> (error + mat)" where
  \<comment> \<open>\<^verbatim>\<open>_compute_morph_matrix\<close>; \<open>vertices_to\<close> is the address of the caller's list\<close>
  "u_compute_morph_matrix st edges maps vertices_from vertices_to smooth xhemi =
     (let hemi_indexes = (if xhemi then [(0, 1), (1, 0)] else [(0, 0), (1, 1)]);
          st' = (if xhemi then st\<lparr>cells := (cells st)(vertices_to := rev (cells st vertices_to))\<rparr>
                 else st)
      in (st',
          and_then (morph_hemis edges maps vertices_from (cells st' vertices_to) smooth hemi_indexes [])
            (\<lambda>morpher.
               if length morpher = 0 then Inl EmptyMorphMatrix
               else if length morpher = 1 then Inr (morpher ! 0)
               else Inr (block_diag morpher))))"

definition compute_morph_matrix ::
  "store \<Rightarrow> mat \<times> mat \<Rightarrow> mat \<times> mat \<Rightarrow> nat list list \<Rightarrow> addr \<Rightarrow> int option \<Rightarrow> bool \<Rightarrow>
     store \<times> (error + mat)" where
  \<comment> \<open>the deprecated public function hands its arguments on\<close>
  "compute_morph_matrix st edges maps vertices_from vertices_to smooth xhemi =
     u_compute_morph_matrix st edges maps vertices_from vertices_to smooth xhemi"

subsection \<open>The operator: SourceMorph and compute_source_morph\<close>

datatype src_data = SurfData "nat list list" | VolData pyval

record SourceMorph =
  m_subject_from :: "string option"
  m_subject_to :: string
  m_kind :: string
  m_niter_affine :: "int list"
  m_niter_sdr :: "int list"
  m_spacing :: grade
  m_smooth :: "int option"
  m_xhemi :: bool
  m_morph_mat :: "mat option"
  m_vertices_to :: "addr option"
  m_morph_shape :: pyval
  m_morph_zooms :: pyval
  m_morph_affine :: pyval
  m_pre_sdr_affine :: "pyobj option"
  m_sdr_mapping :: "pyobj option"
  m_src_data :: src_data

text \<open>The attributes carry the prefix \<open>m_\<close>: \<open>m_subject_from\<close> is \<^verbatim>\<open>self.subject_from\<close>.\<close>

datatype src =
    SrcNone
  | SrcEstimate "nat list list" "string option"
      \<comment> \<open>a (Vector)SourceEstimate: its vertices and its subject\<close>
  | SrcSpaces string "nat list list" "string option" pyval
      \<comment> \<open>SourceSpaces: kind, the vertno of each space, \<^verbatim>\<open>src[0]['subject_his_id']\<close>, and
          the dictionary \<^verbatim>\<open>_get_src_data\<close> builds from a volume source space\<close>
  | SrcOther

text \<open>
  What the functions outside the file deliver: the vertex counts of the two destination
  spheres and the nearest-neighbour search on them, the mesh edges of the two source
  spheres, the morph maps, the outcome of \<^verbatim>\<open>_compute_sparse_morph\<close> (used with
  \<^verbatim>\<open>sparse=True\<close> only, which no property below is about), and the outcome of the
  volume registration: \<^verbatim>\<open>morph_shape, morph_zooms, morph_affine, pre_sdr_affine, sdr_mapping\<close>,
  or the error of loading the images.
\<close>

record externals =
  ext_n_surf :: "nat \<times> nat"
  ext_nearest :: "nat list \<times> nat list"
  ext_edges :: "mat \<times> mat"
  ext_maps :: "mat \<times> mat"
  ext_sparse_morph :: "error + nat list list \<times> mat"
  ext_morph_sdr :: "error + pyval \<times> pyval \<times> pyval \<times> pyobj \<times> pyobj"

definition check_subject_from :: "string option \<Rightarrow> src \<Rightarrow> error + string" where
  \<comment> \<open>called with \<^verbatim>\<open>src.subject\<close> for a source estimate (a subject of None is not a
      string and cannot be indexed) and with the source spaces otherwise\<close>
  "check_subject_from subject_from src =
     and_then
       (case src of
          SrcEstimate v (Some subject) \<Rightarrow> Inr (Some subject)
        | SrcSpaces k v his_id d \<Rightarrow> Inr his_id
        | _ \<Rightarrow> Inl TypeError)
       (\<lambda>subject_check.
          case subject_from of
            None \<Rightarrow> (case subject_check of None \<Rightarrow> Inl SubjectFromMissing | Some c \<Rightarrow> Inr c)
          | Some f \<Rightarrow>
              if subject_check \<noteq> None \<and> Some f \<noteq> subject_check then Inl SubjectFromMismatch
              else Inr f)"

definition get_src_data :: "src \<Rightarrow> error + src_data \<times> string" where
  "get_src_data src =
     (case src of
        SrcEstimate v subject \<Rightarrow>
          if length v < 2 then Inl IndexError else Inr (SurfData [v ! 0, v ! 1], ''surface'')
      | SrcSpaces src_kind vertno his_id d \<Rightarrow>
          if src_kind = ''volume'' then Inr (VolData d, src_kind)
          else if src_kind \<noteq> ''surface'' then Inl AssertionError
          else Inr (SurfData vertno, src_kind)
      | _ \<Rightarrow> Inl SrcType)"

definition sum_len :: "nat list list \<Rightarrow> nat" where
  \<comment> \<open>\<^verbatim>\<open>sum(len(v) for v in vertices_to)\<close>\<close>
  "sum_len vs = sum_list (map length vs)"

definition compute_source_morph ::
  "store \<Rightarrow> externals \<Rightarrow> string option \<Rightarrow> string \<Rightarrow> src \<Rightarrow> int list \<Rightarrow> int list \<Rightarrow>
     grade \<Rightarrow> int option \<Rightarrow> bool \<Rightarrow> bool \<Rightarrow> store \<times> (error + SourceMorph)" where
  "compute_source_morph st ext subject_from0 subject_to0 src niter_affine0 niter_sdr0
       spacing0 smooth0 xhemi0 sparse =
     (case (case src of
              SrcEstimate v subject \<Rightarrow>
                and_then (check_subject_from subject_from0 src) (\<lambda>f. Inr (SurfData v, ''surface'', f))
            | SrcNone \<Rightarrow> Inl SrcMissing
            | _ \<Rightarrow>
                and_then (get_src_data src) (\<lambda>(d, k).
                and_then (check_subject_from subject_from0 src) (\<lambda>f. Inr (d, k, f))))
      of
        Inl err \<Rightarrow> (st, Inl err)
      | Inr (src_data0, kind0, subject_from1) \<Rightarrow>
          let result = (\<lambda>mat vt shape zooms affine pre sdr.
                 \<lparr>m_subject_from = Some subject_from1, m_subject_to = subject_to0, m_kind = kind0,
                  m_niter_affine = niter_affine0, m_niter_sdr = niter_sdr0, m_spacing = spacing0,
                  m_smooth = smooth0, m_xhemi = xhemi0, m_morph_mat = mat, m_vertices_to = vt,
                  m_morph_shape = shape, m_morph_zooms = zooms, m_morph_affine = affine,
                  m_pre_sdr_affine = pre, m_sdr_mapping = sdr, m_src_data = src_data0\<rparr>)
          in
          if kind0 \<noteq> ''surface'' \<and> xhemi0 then (st, Inl XhemiNotSurface)
          else if sparse \<and> kind0 \<noteq> ''surface'' then (st, Inl SparseNotSurface)
          else if kind0 = ''volume'' then
            (st, and_then (ext_morph_sdr ext) (\<lambda>(shape, zooms, affine, pre, sdr).
                   Inr (result None None shape zooms affine (Some pre) (Some sdr))))
          else if sparse then
            (if spacing0 \<noteq> GradeNone then (st, Inl SparseSpacing)
             else (case ext_sparse_morph ext of
                     Inl err \<Rightarrow> (st, Inl err)
                   | Inr (vertices, mat) \<Rightarrow>
                       (let (st1, a) = alloc st vertices
                        in (st1, Inr (result (Some mat) (Some a) PNone PNone PNone None None)))))
          else
            (case grade_to_vertices st subject_to0 spacing0 (ext_n_surf ext) (ext_nearest ext) of
               (st1, Inl err) \<Rightarrow> (st1, Inl err)
             | (st1, Inr vt) \<Rightarrow>
                 (case src_data0 of
                    VolData d \<Rightarrow> (st1, Inl TypeError)
                  | SurfData vertices_from \<Rightarrow>
                      (case u_compute_morph_matrix st1 (ext_edges ext) (ext_maps ext)
                              vertices_from vt smooth0 xhemi0 of
                         (st2, Inl err) \<Rightarrow> (st2, Inl err)
                       | (st2, Inr mat) \<Rightarrow>
                           (let n_verts = sum_len (cells st2 vt) in
                            if nrows mat \<noteq> n_verts then (st2, Inl AssertionError)
                            else (st2, Inr (result (Some mat) (Some vt) PNone PNone PNone
                                               None None)))))))"

subsection \<open>Applying the operator: __call__, as_volume and _apply_morph_data\<close>

datatype klass = SourceEstimate | VectorSourceEstimate | VolSourceEstimate

record stc =
  stc_klass :: klass
  stc_data :: buffer
  stc_vertices :: "nat list list"
  stc_tmin :: rat
  stc_tstep :: rat
  stc_subject :: "string option"

text \<open>
  The source estimate classes are not part of the file. A source estimate is the
  arguments of its constructor; \<open>halves\<close> is the pair of \<^verbatim>\<open>stc_from.lh_data\<close> and
  \<^verbatim>\<open>stc_from.rh_data\<close>. The one vertex array of a \<^verbatim>\<open>VolSourceEstimate\<close> is kept as a
  list of one array.
\<close>

definition flat :: "buffer \<Rightarrow> rat list" where
  \<comment> \<open>the entries in C order\<close>
  "flat b = (case b of
       Dense m \<Rightarrow> concat (mrows m)
     | Sparse m \<Rightarrow> concat (mrows m)
     | Dense3 a \<Rightarrow> concat (concat (a3_items a)))"

definition data_shape :: "buffer \<Rightarrow> nat list" where
  \<comment> \<open>\<^verbatim>\<open>stc.data.shape\<close>\<close>
  "data_shape b = (case b of
       Dense m \<Rightarrow> [nrows m, ncols m]
     | Sparse m \<Rightarrow> [nrows m, ncols m]
     | Dense3 a \<Rightarrow> (case a3_shape a of (n, m, t) \<Rightarrow> [n, m, t]))"

fun chunks :: "nat \<Rightarrow> nat \<Rightarrow> 'a list \<Rightarrow> 'a list list" where
  "chunks 0 c xs = []"
| "chunks (Suc n) c xs = take c xs # chunks n c (drop c xs)"

definition reshape2 :: "rat list \<Rightarrow> nat \<Rightarrow> nat \<Rightarrow> error + mat" where
  \<comment> \<open>\<^verbatim>\<open>.reshape(r, c)\<close>\<close>
  "reshape2 xs r c =
     (if length xs \<noteq> r * c then Inl DimensionMismatch else Inr (Mat c (chunks r c xs)))"

definition reshape3 :: "rat list \<Rightarrow> nat \<Rightarrow> nat \<Rightarrow> nat \<Rightarrow> error + arr3" where
  \<comment> \<open>\<^verbatim>\<open>.reshape(n, m, t)\<close> of a product with the floating-point morph matrix\<close>
  "reshape3 xs n m t =
     (if length xs \<noteq> n * (m * t) then Inl DimensionMismatch
      else Inr (Arr3 FloatType (n, m, t) (map (chunks m t) (chunks n (m * t) xs))))"

definition select_data :: "nat list list \<Rightarrow> buffer \<Rightarrow> buffer \<times> buffer \<Rightarrow> error + buffer" where
  \<comment> \<open>select correct data - since vertices_to can have empty hemispheres\<close>
  "select_data vertices_to data halves =
     (if length vertices_to = 0 then Inl IndexError
      else if length (vertices_to ! 0) \<noteq> 0 then
        (if length vertices_to < 2 then Inl IndexError
         else if length (vertices_to ! 1) \<noteq> 0 then Inr data
         else Inr (fst halves))
      else Inr (snd halves))"

definition morph_vector :: "mat \<Rightarrow> buffer \<Rightarrow> buffer \<Rightarrow> error + buffer" where
  \<comment> \<open>Morph the locations of the dipoles, but not their orientation; \<open>whole\<close> is
      \<^verbatim>\<open>stc_from.data\<close>, \<open>data\<close> the selected data\<close>
  "morph_vector morph_mat whole data =
     (case whole of
        Dense3 a \<Rightarrow>
          (case a3_shape a of (n_verts, c, n_samples) \<Rightarrow>
             and_then (reshape2 (flat data) n_verts (3 * n_samples)) (\<lambda>x.
             and_then (mat_mul morph_mat x) (\<lambda>y.
             and_then (reshape3 (concat (mrows y)) (nrows morph_mat) 3 n_samples) (\<lambda>z.
               Inr (Dense3 z)))))
      | _ \<Rightarrow> Inl DimensionMismatch)"

definition morph_scalar :: "mat \<Rightarrow> buffer \<Rightarrow> error + buffer" where
  \<comment> \<open>\<^verbatim>\<open>data = morph_mat * data\<close>\<close>
  "morph_scalar morph_mat data =
     (case data of
        Dense m \<Rightarrow> and_then (mat_mul morph_mat m) (\<lambda>y. Inr (Dense y))
      | Sparse m \<Rightarrow> and_then (mat_mul morph_mat m) (\<lambda>y. Inr (Sparse y))
      | Dense3 a \<Rightarrow> Inl DimensionMismatch)"

text \<open>
  The volume branch. nibabel and dipy are not part of the file. An image of nibabel is the
  arguments of its constructor together with what is set in its header; \<^verbatim>\<open>reslice\<close> and
  the \<^verbatim>\<open>transform\<close> methods of the two dipy objects are parameters, functions of the
  values they are called with (a dipy object is its class with its \<^verbatim>\<open>__dict__\<close>).
  \<open>nibabel_ok\<close> and \<open>dipy_ok\<close> say whether the package can be imported in the version
  that \<^verbatim>\<open>_check_dep\<close> asks for.

  The attributes of a volume operator are read as what \<^verbatim>\<open>compute_source_morph\<close> stores in
  them: \<^verbatim>\<open>morph_shape\<close> and \<^verbatim>\<open>morph_zooms\<close> are tuples of numbers, \<^verbatim>\<open>morph_affine\<close> is an
  array, and \<^verbatim>\<open>src_data\<close> is the dictionary of \<^verbatim>\<open>_get_src_data\<close> with its shape tuples
  and its arrays; the interpolator, a sparse matrix, is an array with two dimensions. A
  value of another type ends in the TypeError or AttributeError of the first operation
  that needs the type, and the data of the source estimate is an array with two
  dimensions. Division is the true division of Python 3.
\<close>

record nifti_header =
  hdr_units :: "(string \<times> string) option"
  hdr_pixdim4 :: "rat option"
  hdr_zooms :: "pyval option"

record nifti_image =
  img_class :: string
  img_data :: ndarray
  img_affine :: pyval
  img_header :: nifti_header

datatype resolution = ResBool bool | ResNum rat | ResTuple "rat list"

record libraries =
  nibabel_ok :: bool
  dipy_ok :: bool
  lib_reslice :: "ndarray \<Rightarrow> pyval \<Rightarrow> pyval \<Rightarrow> pyval \<Rightarrow> error + ndarray \<times> pyval"
  lib_affine_transform :: "pyobj \<Rightarrow> ndarray \<Rightarrow> error + ndarray"
  lib_sdr_transform :: "pyobj \<Rightarrow> ndarray \<Rightarrow> error + ndarray"

definition check_dep :: "libraries \<Rightarrow> bool \<Rightarrow> bool \<Rightarrow> error + unit" where
  \<comment> \<open>\<^verbatim>\<open>_check_dep\<close>; an argument that is False leaves that package unchecked\<close>
  "check_dep lib nibabel dipy =
     (if (nibabel \<and> \<not> nibabel_ok lib) \<or> (dipy \<and> \<not> dipy_ok lib) then Inl ImportError
      else Inr ())"

fun collect :: "(error + 'a) list \<Rightarrow> error + 'a list" where
  \<comment> \<open>the results of the passes of a loop or a comprehension, or the first error\<close>
  "collect [] = Inr []"
| "collect (x # xs) = and_then x (\<lambda>y. and_then (collect xs) (\<lambda>ys. Inr (y # ys)))"

definition num_of :: "pyval \<Rightarrow> rat option" where
  "num_of v = (case v of PInt i \<Rightarrow> Some (of_int i) | PNum x \<Rightarrow> Some x
                       | PBool b \<Rightarrow> Some (if b then 1 else 0) | _ \<Rightarrow> None)"

definition iter_of :: "pyval \<Rightarrow> error + pyval list" where
  \<comment> \<open>the items that iterating over the value yields\<close>
  "iter_of v =
     (case v of
        PSeq xs \<Rightarrow> Inr xs
      | PStr s \<Rightarrow> Inr (map (\<lambda>c. PStr [c]) s)
      | PDict kvs \<Rightarrow> Inr (map (\<lambda>(k, x). PStr k) kvs)
      | PArr a \<Rightarrow>
          (case nd_shape a of
             [] \<Rightarrow> Inl TypeError
           | d # ds \<Rightarrow>
               Inr (map (\<lambda>c. if ds = [] then PNum (c ! 0) else PArr (NdArray ds c))
                      (chunks d (prod_list ds) (nd_items a))))
      | _ \<Rightarrow> Inl TypeError)"

definition py_int :: "pyval \<Rightarrow> error + int" where
  \<comment> \<open>\<^verbatim>\<open>int(i)\<close> of a number: towards zero\<close>
  "py_int v = (case num_of v of
                 None \<Rightarrow> Inl TypeError
               | Some x \<Rightarrow> Inr (if 0 \<le> x then \<lfloor>x\<rfloor> else \<lceil>x\<rceil>))"

definition py_slice3 :: "pyval \<Rightarrow> error + pyval" where
  \<comment> \<open>\<^verbatim>\<open>v[:3]\<close>\<close>
  "py_slice3 v =
     (case v of
        PSeq xs \<Rightarrow> Inr (PSeq (take 3 xs))
      | PStr s \<Rightarrow> Inr (PStr (take 3 s))
      | PArr a \<Rightarrow>
          (case nd_shape a of
             [] \<Rightarrow> Inl IndexError
           | d # ds \<Rightarrow>
               Inr (PArr (NdArray (min 3 d # ds) (take (min 3 d * prod_list ds) (nd_items a)))))
      | _ \<Rightarrow> Inl TypeError)"

definition as_array :: "error \<Rightarrow> pyval \<Rightarrow> error + ndarray" where
  \<comment> \<open>the array that an operation needs, or the error it raises on another value\<close>
  "as_array err v = (case v of PArr a \<Rightarrow> Inr a | _ \<Rightarrow> Inl err)"

definition dims_of :: "int list \<Rightarrow> error + nat list" where
  \<comment> \<open>a shape as \<^verbatim>\<open>np.zeros\<close> takes it\<close>
  "dims_of shape = (if list_all (\<lambda>i. 0 \<le> i) shape then Inr (map nat shape)
                    else Inl NegativeDimensions)"

definition as_dims :: "pyval \<Rightarrow> error + nat list" where
  \<comment> \<open>a tuple of integers used as a shape\<close>
  "as_dims v =
     (case v of
        PSeq xs \<Rightarrow>
          and_then (collect (map (\<lambda>x. case x of PInt i \<Rightarrow> Inr i | _ \<Rightarrow> Inl TypeError) xs)) dims_of
      | _ \<Rightarrow> Inl TypeError)"

definition nd_reshape :: "ndarray \<Rightarrow> nat list \<Rightarrow> error + ndarray" where
  "nd_reshape a shape =
     (if prod_list shape \<noteq> length (nd_items a) then Inl DimensionMismatch
      else Inr (NdArray shape (nd_items a)))"

fun unravel :: "nat list \<Rightarrow> nat \<Rightarrow> nat list" where
  \<comment> \<open>the index tuple of the entry at a position in C order\<close>
  "unravel [] i = []"
| "unravel (d # ds) i = (i div prod_list ds) # unravel ds (i mod prod_list ds)"

definition ravel :: "nat list \<Rightarrow> nat list \<Rightarrow> nat" where
  \<comment> \<open>the position in C order of the entry with an index tuple\<close>
  "ravel shape idx = foldl (\<lambda>acc (d, i). acc * d + i) 0 (zip shape idx)"

definition nd_transpose :: "ndarray \<Rightarrow> ndarray" where
  \<comment> \<open>\<^verbatim>\<open>.T\<close>: the axes in reverse order\<close>
  "nd_transpose a =
     (let shape = rev (nd_shape a)
      in NdArray shape
           (map (\<lambda>i. nd_items a ! ravel (nd_shape a) (rev (unravel shape i)))
              [0..<prod_list shape]))"

definition nd_dot :: "ndarray \<Rightarrow> ndarray \<Rightarrow> error + ndarray" where
  \<comment> \<open>\<^verbatim>\<open>np.dot\<close> of two arrays with two dimensions, which the affines are\<close>
  "nd_dot a b =
     (case (nd_shape a, nd_shape b) of
        ([r, n], [n', c]) \<Rightarrow>
          and_then (mat_mul (Mat n (chunks r n (nd_items a))) (Mat c (chunks n' c (nd_items b))))
            (\<lambda>m. Inr (NdArray [r, c] (concat (mrows m))))
      | _ \<Rightarrow> Inl DimensionMismatch)"

definition scale_head :: "ndarray \<Rightarrow> error + ndarray" where
  \<comment> \<open>the array after \<^verbatim>\<open>affine[:3] *= 1e3\<close>\<close>
  "scale_head a =
     (case nd_shape a of
        [] \<Rightarrow> Inl IndexError
      | d # ds \<Rightarrow>
          Inr (NdArray (d # ds)
                 (map (\<lambda>x. x * 1000) (take (min 3 d * prod_list ds) (nd_items a)) @
                  drop (min 3 d * prod_list ds) (nd_items a))))"

definition broadcast_to :: "nat list \<Rightarrow> ndarray \<Rightarrow> error + rat list" where
  \<comment> \<open>the entries that an assignment to a target of the given shape stores: leading axes
      of length 1 that the target does not have are dropped, and the array is repeated
      along its axes of length 1\<close>
  "broadcast_to shape a =
     (let extra = length (nd_shape a) - length shape in
      if \<not> list_all (\<lambda>d. d = 1) (take extra (nd_shape a)) then Inl DimensionMismatch
      else
        (let s = replicate (length shape - length (nd_shape a)) 1 @ drop extra (nd_shape a) in
         if \<not> list_all2 (\<lambda>d t. d = t \<or> d = 1) s shape then Inl DimensionMismatch
         else Inr (map (\<lambda>i. nd_items a !
                              ravel s (map2 (\<lambda>d j. if d = 1 then 0 else j) s (unravel shape i)))
                     [0..<prod_list shape])))"

definition get_item :: "src_data \<Rightarrow> string \<Rightarrow> error + pyval" where
  \<comment> \<open>\<^verbatim>\<open>morph.src_data[key]\<close>; the source data of a surface operator is a list\<close>
  "get_item d key =
     (case d of
        SurfData vs \<Rightarrow> Inl TypeError
      | VolData v \<Rightarrow>
          (case v of
             PDict kvs \<Rightarrow> (case map_of kvs key of None \<Rightarrow> Inl KeyError | Some x \<Rightarrow> Inr x)
           | _ \<Rightarrow> Inl TypeError))"

definition set_item :: "src_data \<Rightarrow> string \<Rightarrow> pyval \<Rightarrow> src_data" where
  \<comment> \<open>the dictionary after the object stored under \<open>key\<close> was written in place\<close>
  "set_item d key x =
     (case d of
        VolData (PDict kvs) \<Rightarrow>
          VolData (PDict (map (\<lambda>(k, v). if k = key then (k, x) else (k, v)) kvs))
      | _ \<Rightarrow> d)"

definition zoom_orig :: "pyval \<Rightarrow> pyval \<Rightarrow> pyval \<Rightarrow> error + pyval" where
  \<comment> \<open>\<^verbatim>\<open>mz / ss * ms\<close>\<close>
  "zoom_orig mz ms ss =
     (case (num_of mz, num_of ss) of
        (Some a, Some b) \<Rightarrow>
          if b = 0 then Inl ZeroDivisionError
          else (case num_of ms of None \<Rightarrow> Inl TypeError | Some c \<Rightarrow> Inr (PNum (a / b * c)))
      | _ \<Rightarrow> Inl TypeError)"

definition get_zooms_orig :: "SourceMorph \<Rightarrow> error + pyval" where
  \<comment> \<open>Compute src zooms from morph zooms, morph shape and src shape.\<close>
  "get_zooms_orig morph =
     and_then (get_item (m_src_data morph) ''src_shape_full'') (\<lambda>src_shape_full.
     and_then (iter_of (m_morph_zooms morph)) (\<lambda>zs.
     and_then (iter_of (m_morph_shape morph)) (\<lambda>ms.
     and_then (iter_of src_shape_full) (\<lambda>ss.
     and_then (collect (map (\<lambda>(mz, ms, ss). zoom_orig mz ms ss) (zip zs (zip ms ss))))
       (\<lambda>zooms. Inr (PSeq zooms))))))"

definition column_head :: "buffer \<Rightarrow> nat \<Rightarrow> nat \<Rightarrow> error + rat list" where
  \<comment> \<open>\<^verbatim>\<open>stc.data[0:n, k]\<close>\<close>
  "column_head data n k =
     (case data of
        Dense m \<Rightarrow> Inr (map (\<lambda>r. r ! k) (take n (mrows m)))
      | _ \<Rightarrow> Inl DimensionMismatch)"

fun scatter :: "bool list \<Rightarrow> rat list \<Rightarrow> rat list" where
  \<comment> \<open>the values laid down, in order, where the mask is true, zero elsewhere\<close>
  "scatter [] vs = []"
| "scatter (b # bs) vs =
     (if b then (case vs of [] \<Rightarrow> 0 | v # rest \<Rightarrow> v) # scatter bs (tl vs)
      else 0 # scatter bs vs)"

definition fill_volume :: "bool list \<Rightarrow> rat list \<Rightarrow> error + rat list" where
  \<comment> \<open>\<^verbatim>\<open>vol[mask3d] = values\<close> on a volume of zeros: as many values as the mask has true
      entries, or a single value for all of them\<close>
  "fill_volume mask3d vs =
     (if length vs = length (filter id mask3d) then Inr (scatter mask3d vs)
      else if length vs = 1 then Inr (map (\<lambda>b. if b then vs ! 0 else 0) mask3d)
      else Inl DimensionMismatch)"

definition sparse_times :: "pyval \<Rightarrow> rat list \<Rightarrow> error + rat list" where
  \<comment> \<open>\<^verbatim>\<open>interpolator * vol.ravel()\<close>\<close>
  "sparse_times interpolator v =
     and_then (as_array TypeError interpolator) (\<lambda>a.
       case nd_shape a of
         [r, c] \<Rightarrow> if c \<noteq> length v then Inl DimensionMismatch
                   else Inr (mat_vec (Mat c (chunks r c (nd_items a))) v)
       | _ \<Rightarrow> Inl DimensionMismatch)"

definition interpolate_volumes :: "stc \<Rightarrow> SourceMorph \<Rightarrow> bool \<Rightarrow> error + ndarray" where
  \<comment> \<open>\<^verbatim>\<open>_interpolate_data\<close> from \<^verbatim>\<open># setup volume parameters\<close> to \<^verbatim>\<open>vols = vols.T\<close>; the
      slice of the source estimate starts at \<^verbatim>\<open>n_vertices_seen\<close>, which is 0 in every
      pass of the loop\<close>
  "interpolate_volumes stc morph mri_resolution =
     (let n_times = data_shape (stc_data stc) ! 1 in
      and_then (get_item (m_src_data morph) ''src_shape'') (\<lambda>shape3d.
      and_then (as_dims shape3d) (\<lambda>dims.
      and_then (get_item (m_src_data morph) ''inuse'') (\<lambda>inuse.
      and_then (as_array AttributeError inuse) (\<lambda>inuse_array.
      and_then (nd_reshape inuse_array dims) (\<lambda>mask.
        let mask3d = map (\<lambda>x. x \<noteq> 0) (nd_items mask);
            n_vertices = length (filter id mask3d)
        in
        and_then (collect (map (\<lambda>k. and_then (column_head (stc_data stc) n_vertices k)
                                       (fill_volume mask3d))
                             [0..<n_times])) (\<lambda>vols.
        and_then
          (if mri_resolution then
             and_then (get_item (m_src_data morph) ''src_shape_full'') (\<lambda>mri_shape3d.
             and_then (as_dims mri_shape3d) (\<lambda>mri_dims.
             and_then (get_item (m_src_data morph) ''interpolator'') (\<lambda>interpolator.
             and_then (collect (map (\<lambda>vol.
                          and_then (sparse_times interpolator vol) (\<lambda>x.
                            if length x \<noteq> prod_list mri_dims then Inl DimensionMismatch
                            else Inr x))
                        vols))
               (\<lambda>mri_vol. Inr (mri_dims, mri_vol)))))
           else Inr (dims, vols))
          (\<lambda>(dims', vols').
             Inr (nd_transpose (NdArray (n_times # dims') (concat vols')))))))))))"

definition interpolate_affine ::
  "SourceMorph \<Rightarrow> bool \<Rightarrow> bool \<Rightarrow> error + ndarray \<times> string option" where
  \<comment> \<open>\<^verbatim>\<open># set correct space\<close>: the array that \<^verbatim>\<open>affine\<close> names before it is scaled, and,
      when that array is an object of the operator's own dictionary, the key it is stored
      under (\<^verbatim>\<open>np.dot\<close> returns a new array)\<close>
  "interpolate_affine morph mri_resolution mri_space =
     and_then (get_item (m_src_data morph) ''src_affine_vox'') (\<lambda>vox.
     and_then (if \<not> mri_resolution
               then and_then (get_item (m_src_data morph) ''src_affine_src'')
                      (\<lambda>src. Inr (src, ''src_affine_src''))
               else Inr (vox, ''src_affine_vox'')) (\<lambda>(affine, key).
       if mri_space then
         and_then (get_item (m_src_data morph) ''src_affine_ras'') (\<lambda>ras.
         and_then (as_array TypeError ras) (\<lambda>r.
         and_then (as_array TypeError affine) (\<lambda>a.
         and_then (nd_dot r a) (\<lambda>product. Inr (product, None)))))
       else and_then (as_array TypeError affine) (\<lambda>a. Inr (a, Some key))))"

definition interpolate_parts ::
  "libraries \<Rightarrow> stc \<Rightarrow> SourceMorph \<Rightarrow> resolution \<Rightarrow> bool \<Rightarrow> string \<Rightarrow>
     error + ndarray \<times> ndarray \<times> string option \<times> rat list option" where
  \<comment> \<open>\<^verbatim>\<open>_interpolate_data\<close> for an operator as \<open>morph\<close>, up to the scaling of the affine: the
      volumes, the scaled affine with the key of the array that was scaled in place, if
      it is one of the operator, and the voxel size to reslice to, if one was given\<close>
  "interpolate_parts lib stc morph mri_resolution mri_space format =
     and_then (check_dep lib True False) (\<lambda>_.
       if format \<noteq> ''nifti1'' \<and> format \<noteq> ''nifti2'' then Inl InvalidFormat
       else if m_kind morph \<noteq> ''volume'' then Inl AssertionError
       else
         and_then
           (case mri_resolution of
              ResBool b \<Rightarrow> Inr (b, None)
            | ResNum x \<Rightarrow> and_then (check_dep lib False True) (\<lambda>_. Inr (True, Some [x, x, x]))
            | ResTuple t \<Rightarrow> and_then (check_dep lib False True) (\<lambda>_. Inr (True, Some t)))
           (\<lambda>(resolution, voxel_size).
              and_then (interpolate_volumes stc morph resolution) (\<lambda>vols.
              and_then (interpolate_affine morph resolution mri_space) (\<lambda>(affine, key).
              and_then (scale_head affine) (\<lambda>scaled. Inr (vols, scaled, key, voxel_size))))))"

definition interpolate_data ::
  "libraries \<Rightarrow> stc \<Rightarrow> SourceMorph \<Rightarrow> resolution \<Rightarrow> bool \<Rightarrow> string \<Rightarrow>
     SourceMorph \<times> (error + nifti_image)" where
  \<comment> \<open>\<^verbatim>\<open>_interpolate_data(stc, morph, mri_resolution, mri_space, format)\<close>: the operator
      after the call, and the result. \<^verbatim>\<open>affine[:3] *= 1e3\<close> works in place, so with
      \<^verbatim>\<open>mri_space=False\<close> it writes the array held by \<^verbatim>\<open>morph.src_data\<close>\<close>
  "interpolate_data lib stc morph mri_resolution mri_space format =
     (case interpolate_parts lib stc morph mri_resolution mri_space format of
        Inl err \<Rightarrow> (morph, Inl err)
      | Inr (vols, affine, key, voxel_size) \<Rightarrow>
          (let morph' = (case key of
                           None \<Rightarrow> morph
                         | Some k \<Rightarrow> morph\<lparr>m_src_data := set_item (m_src_data morph) k (PArr affine)\<rparr>);
               header = \<lparr>hdr_units = Some (''mm'', ''msec''),
                         hdr_pixdim4 = Some (1000 * stc_tstep stc), hdr_zooms = None\<rparr>;
               img = \<lparr>img_class = (if format = ''nifti1'' then ''Nifti1Image'' else ''Nifti2Image''),
                      img_data = vols, img_affine = PArr affine, img_header = header\<rparr>
           in case voxel_size of
                None \<Rightarrow> (morph', Inr img)
              | Some voxels \<Rightarrow>
                  (morph',
                   and_then (get_zooms_orig morph') (\<lambda>zooms_orig.
                   and_then (lib_reslice lib (img_data img) (img_affine img) zooms_orig
                               (PSeq (map PNum voxels))) (\<lambda>(resliced, img_affine').
                     Inr (img\<lparr>img_data := resliced, img_affine := img_affine'\<rparr>))))))"

definition take_axis3 :: "ndarray \<Rightarrow> nat \<Rightarrow> ndarray" where
  \<comment> \<open>\<^verbatim>\<open>img_to[:, :, :, vol]\<close> of an array with four dimensions or more\<close>
  "take_axis3 a vol =
     (let s = nd_shape a; n = s ! 3; r = prod_list (drop 4 s); p = prod_list (take 3 s)
      in NdArray (take 3 s @ drop 4 s)
           (map (\<lambda>i. nd_items a ! ((i div r * n + vol) * r + i mod r)) [0..<p * r]))"

definition put_axis3 :: "ndarray \<Rightarrow> nat \<Rightarrow> ndarray \<Rightarrow> error + ndarray" where
  \<comment> \<open>the array after \<^verbatim>\<open>img_to[:, :, :, vol] = x\<close>\<close>
  "put_axis3 a vol x =
     (let s = nd_shape a; n = s ! 3; r = prod_list (drop 4 s)
      in and_then (broadcast_to (take 3 s @ drop 4 s) x) (\<lambda>xs.
           Inr (NdArray s
                  (map (\<lambda>i. if i div r mod n = vol then xs ! (i div (r * n) * r + i mod r)
                            else nd_items a ! i)
                     [0..<length (nd_items a)]))))"

fun morph_volumes :: "libraries \<Rightarrow> SourceMorph \<Rightarrow> nat list \<Rightarrow> ndarray \<Rightarrow> error + ndarray" where
  \<comment> \<open>the loop \<^verbatim>\<open>for vol in range(img_to.shape[3])\<close>; Python looks up
      \<^verbatim>\<open>morph.sdr_mapping.transform\<close> before it evaluates the argument of the call\<close>
  "morph_volumes lib morph [] img_to = Inr img_to"
| "morph_volumes lib morph (vol # vols) img_to =
     (case m_sdr_mapping morph of
        None \<Rightarrow> Inl AttributeError
      | Some sdr_mapping \<Rightarrow>
          (case m_pre_sdr_affine morph of
             None \<Rightarrow> Inl AttributeError
           | Some pre_sdr_affine \<Rightarrow>
               and_then (lib_affine_transform lib pre_sdr_affine (take_axis3 img_to vol)) (\<lambda>x.
               and_then (lib_sdr_transform lib sdr_mapping x) (\<lambda>y.
               and_then (put_axis3 img_to vol y) (morph_volumes lib morph vols)))))"

definition voxel_rows :: "ndarray \<Rightarrow> error + mat" where
  \<comment> \<open>\<^verbatim>\<open>img_to.reshape(-1, img_to.shape[3])\<close>; the unknown dimension cannot be found for
      rows of length 0\<close>
  "voxel_rows a =
     (let n = nd_shape a ! 3 in
      if n = 0 then Inl DimensionMismatch
      else Inr (Mat n (chunks (length (nd_items a) div n) n (nd_items a))))"

definition morph_volume :: "libraries \<Rightarrow> SourceMorph \<Rightarrow> stc \<Rightarrow> nifti_image \<Rightarrow> error + stc" where
  \<comment> \<open>the volume branch of \<^verbatim>\<open>_apply_morph_data\<close> from \<^verbatim>\<open># reslice to match morph\<close> on,
      with the construction of the result\<close>
  "morph_volume lib morph stc_from img_to =
     and_then (get_zooms_orig morph) (\<lambda>zooms_orig.
     and_then (lib_reslice lib (img_data img_to) (m_morph_affine morph) zooms_orig
                 (m_morph_zooms morph)) (\<lambda>(resliced, img_to_affine).
     and_then (if length (nd_shape resliced) < 4 then Inl IndexError
               else morph_volumes lib morph [0..<nd_shape resliced ! 3] resliced) (\<lambda>morphed.
     and_then (voxel_rows morphed) (\<lambda>rows.
       let vertices_to = filter (\<lambda>i. sum_list (mrows rows ! i) \<noteq> 0) [0..<nrows rows] in
       and_then (sel_rows rows vertices_to) (\<lambda>data.
         Inr \<lparr>stc_klass = VolSourceEstimate, stc_data = Dense data,
              stc_vertices = [vertices_to], stc_tmin = stc_tmin stc_from,
              stc_tstep = stc_tstep stc_from, stc_subject = Some (m_subject_to morph)\<rparr>)))))"

definition morph_surface ::
  "store \<Rightarrow> SourceMorph \<Rightarrow> stc \<Rightarrow> buffer \<times> buffer \<Rightarrow> error + stc" where
  \<comment> \<open>the surface branch of \<^verbatim>\<open>_apply_morph_data\<close> below its assertion, with the
      construction of the result\<close>
  "morph_surface st morph stc_from halves =
     (case m_src_data morph of
        VolData d \<Rightarrow> Inl TypeError
      | SurfData vertices_from \<Rightarrow>
          (case find (\<lambda>(hemi, v1, v2). v1 \<noteq> v2)
                  (zip [0, 1] (zip vertices_from (stc_vertices stc_from))) of
             Some (hemi, v1, v2) \<Rightarrow> Inl (VerticesMismatch hemi)
           | None \<Rightarrow>
               (case m_vertices_to morph of
                  None \<Rightarrow> Inl TypeError
                | Some a \<Rightarrow>
                    (let vertices_to = cells st a in
                     and_then (select_data vertices_to (stc_data stc_from) halves) (\<lambda>data.
                       case m_morph_mat morph of
                         None \<Rightarrow> Inl TypeError
                       | Some morph_mat \<Rightarrow>
                           and_then
                             (if stc_klass stc_from = VectorSourceEstimate
                              then morph_vector morph_mat (stc_data stc_from) data
                              else morph_scalar morph_mat data)
                             (\<lambda>data'.
                                Inr \<lparr>stc_klass =
                                       (if stc_klass stc_from = VectorSourceEstimate
                                        then VectorSourceEstimate else SourceEstimate),
                                     stc_data = data', stc_vertices = vertices_to,
                                     stc_tmin = stc_tmin stc_from,
                                     stc_tstep = stc_tstep stc_from,
                                     stc_subject = Some (m_subject_to morph)\<rparr>))))))"

definition apply_morph_data ::
  "store \<Rightarrow> libraries \<Rightarrow> SourceMorph \<Rightarrow> stc \<Rightarrow> buffer \<times> buffer \<Rightarrow>
     SourceMorph \<times> (error + stc)" where
  \<comment> \<open>\<^verbatim>\<open>_apply_morph_data(morph, stc_from)\<close>: the operator after the call, and the result;
      the volume branch begins with the import of \<^verbatim>\<open>reslice\<close> from dipy\<close>
  "apply_morph_data st lib morph stc_from halves =
     (if stc_subject stc_from \<noteq> None \<and> stc_subject stc_from \<noteq> m_subject_from morph
      then (morph, Inl SubjectMismatch)
      else if m_kind morph = ''volume'' then
        (case check_dep lib False True of
           Inl err \<Rightarrow> (morph, Inl err)
         | Inr _ \<Rightarrow>
             (case interpolate_data lib stc_from morph (ResBool True) True ''nifti1'' of
                (morph', Inl err) \<Rightarrow> (morph', Inl err)
              | (morph', Inr img_to) \<Rightarrow> (morph', morph_volume lib morph' stc_from img_to)))
      else if m_kind morph \<noteq> ''surface'' then (morph, Inl AssertionError)
      else (morph, morph_surface st morph stc_from halves))"

datatype call_result = Morphed stc | Image nifti_image

definition call_morph ::
  "store \<Rightarrow> libraries \<Rightarrow> SourceMorph \<Rightarrow> stc \<Rightarrow> buffer \<times> buffer \<Rightarrow> SourceMorph \<times> (error + stc)" where
  \<comment> \<open>\<^verbatim>\<open>__call__\<close> with \<^verbatim>\<open>as_volume=False\<close>: the operator after the call, and the result\<close>
  "call_morph st lib self stc_from halves =
     (let stc = (if stc_subject stc_from = None
                 then stc_from\<lparr>stc_subject := m_subject_from self\<rparr> else stc_from);
          self' = (if m_subject_from self = None
                   then self\<lparr>m_subject_from := stc_subject stc\<rparr> else self)
      in if stc_subject stc \<noteq> m_subject_from self' then (self', Inl SubjectMismatch)
         else apply_morph_data st lib self' stc halves)"

definition volume_of_stc :: "nat list \<Rightarrow> stc \<Rightarrow> error + ndarray" where
  \<comment> \<open>\<^verbatim>\<open>img = np.zeros(shape + (stc.shape[1],)).reshape(-1, stc.shape[1])\<close>,
      \<^verbatim>\<open>img[stc.vertices, :] = stc.data\<close> and \<^verbatim>\<open>img = img.reshape(shape + (-1,))\<close>: the
      data has a row for each vertex or one row for all of them, and an unknown
      dimension cannot be found in an array without entries\<close>
  "volume_of_stc dims stc =
     (let n_times = data_shape (stc_data stc) ! 1; n_voxels = prod_list dims in
      if n_times = 0 then Inl DimensionMismatch
      else
        (case stc_vertices stc of
           [vertices] \<Rightarrow>
             if \<not> in_range vertices n_voxels then Inl IndexError
             else
               (case stc_data stc of
                  Dense m \<Rightarrow>
                    and_then
                      (if nrows m = length vertices then Inr (mrows m)
                       else if nrows m = 1 then Inr (replicate (length vertices) (mrows m ! 0))
                       else Inl DimensionMismatch) (\<lambda>rows.
                      let img = foldl (\<lambda>img (v, row). img[v := row])
                                  (replicate n_voxels (zeros n_times)) (zip vertices rows)
                      in if n_voxels = 0 then Inl DimensionMismatch
                         else Inr (NdArray (dims @ [n_times]) (concat img)))
                | _ \<Rightarrow> Inl DimensionMismatch)
         | _ \<Rightarrow> Inl IndexError))"

definition stc_as_volume ::
  "libraries \<Rightarrow> SourceMorph \<Rightarrow> stc \<Rightarrow> resolution \<Rightarrow> resolution \<Rightarrow> string \<Rightarrow>
     error + nifti_image" where
  \<comment> \<open>\<^verbatim>\<open>_stc_as_volume(morph, stc, mri_resolution, mri_space, format)\<close>, which does not
      use \<^verbatim>\<open>mri_space\<close>; a format other than the two leaves \<^verbatim>\<open>NiftiHeader\<close> unbound\<close>
  "stc_as_volume lib morph stc mri_resolution mri_space format =
     (if stc_klass stc \<noteq> VolSourceEstimate then Inl VolumeOnly
      else
        and_then (check_dep lib True False) (\<lambda>_.
        and_then (check_dep lib False True) (\<lambda>_.
        and_then
          (case mri_resolution of
             ResBool b \<Rightarrow> if b then and_then (get_zooms_orig morph) (\<lambda>z. Inr (Some z)) else Inr None
           | ResNum x \<Rightarrow> Inr (Some (PSeq [PNum x, PNum x, PNum x]))
           | ResTuple t \<Rightarrow> Inr (Some (PSeq (map PNum t)))) (\<lambda>new_zooms.
        and_then (iter_of (m_morph_shape morph)) (\<lambda>morph_shape.
        and_then (collect (map py_int morph_shape)) (\<lambda>shape.
        and_then (py_slice3 (m_morph_zooms morph)) (\<lambda>zooms.
          if format \<noteq> ''nifti1'' \<and> format \<noteq> ''nifti2'' then Inl UnboundLocalError
          else
            and_then (dims_of shape) (\<lambda>dims.
            and_then (volume_of_stc dims stc) (\<lambda>volume.
              let hdr = \<lparr>hdr_units = Some (''mm'', ''msec''),
                        hdr_pixdim4 = Some (1000 * stc_tstep stc), hdr_zooms = None\<rparr>;
                  name = (if format = ''nifti1'' then ''Nifti1Image'' else ''Nifti2Image'');
                  img = \<lparr>img_class = name, img_data = volume,
                         img_affine = m_morph_affine morph, img_header = hdr\<rparr>
              in case new_zooms of
                   None \<Rightarrow>
                     and_then (iter_of zooms) (\<lambda>zs.
                       Inr (img\<lparr>img_header := hdr\<lparr>hdr_zooms := Some (PSeq (zs @ [PInt 1]))\<rparr>\<rparr>))
                 | Some z \<Rightarrow>
                     and_then (py_slice3 z) (\<lambda>new_zooms3.
                     and_then (lib_reslice lib (img_data img) (img_affine img) zooms new_zooms3)
                       (\<lambda>(resliced, affine).
                     and_then (iter_of new_zooms3) (\<lambda>zs.
                       Inr \<lparr>img_class = name, img_data = resliced, img_affine = affine,
                            img_header = \<lparr>hdr_units = None, hdr_pixdim4 = None,
                                          hdr_zooms = Some (PSeq (zs @ [PInt 1]))\<rparr>\<rparr>))))))))))))"

definition as_volume ::
  "store \<Rightarrow> libraries \<Rightarrow> SourceMorph \<Rightarrow> stc \<Rightarrow> buffer \<times> buffer \<Rightarrow> resolution \<Rightarrow> resolution \<Rightarrow>
     bool \<Rightarrow> string \<Rightarrow> SourceMorph \<times> (error + nifti_image)" where
  \<comment> \<open>\<^verbatim>\<open>as_volume\<close> with \<^verbatim>\<open>fname=None\<close>\<close>
  "as_volume st lib self stc halves mri_resolution mri_space apply_morph format =
     (if format \<noteq> ''nifti1'' \<and> format \<noteq> ''nifti2'' then (self, Inl InvalidFormat)
      else if apply_morph then
        (case call_morph st lib self stc halves of
           (self', Inl err) \<Rightarrow> (self', Inl err)
         | (self', Inr stc') \<Rightarrow>
             (self', stc_as_volume lib self' stc' mri_resolution mri_space format))
      else (self, stc_as_volume lib self stc mri_resolution mri_space format))"

definition call ::
  "store \<Rightarrow> libraries \<Rightarrow> SourceMorph \<Rightarrow> stc \<Rightarrow> buffer \<times> buffer \<Rightarrow> bool \<Rightarrow> resolution \<Rightarrow>
     resolution option \<Rightarrow> bool \<Rightarrow> string \<Rightarrow> SourceMorph \<times> (error + call_result)" where
  \<comment> \<open>\<^verbatim>\<open>SourceMorph.__call__(self, stc_from, as_volume, mri_resolution, mri_space,
      apply_morph, format)\<close>: the operator after the call, and the result\<close>
  "call st lib self stc_from halves as_vol mri_resolution mri_space apply_morph format =
     (if as_vol then
        (let mri_space' = (case mri_space of None \<Rightarrow> mri_resolution | Some space \<Rightarrow> space) in
         case as_volume st lib self stc_from halves mri_resolution mri_space' apply_morph format of
           (self', r) \<Rightarrow> (self', and_then r (\<lambda>img. Inr (Image img))))
      else
        (case call_morph st lib self stc_from halves of
           (self', r) \<Rightarrow> (self', and_then r (\<lambda>stc. Inr (Morphed stc)))))"

subsection \<open>Saving and reading the operator\<close>



















subsection \<open>The smoother in the words of its description\<close>

text \<open>
  The definitions of this subsection are not translations of code. They say what the
  description of the smoother promises, with the operations above, and the theorems
  compare them with \<open>smooth_loop\<close> and \<open>final_normalize\<close>.
\<close>

definition grow :: "mat \<Rightarrow> nat list \<Rightarrow> nat list" where
  \<comment> \<open>the new active set: the vertices with a non-zero sum over their active neighbours\<close>
  "grow e idx = where_nz (mat_vec e (indicator (ncols e) idx))"

definition covers :: "mat \<Rightarrow> nat \<Rightarrow> nat list \<Rightarrow> nat \<Rightarrow> bool" where
  \<comment> \<open>the new active set of iteration \<open>k\<close> (counted from 0) covers all vertices\<close>
  "covers e n_vertices idx k = (n_vertices \<le> length ((grow e ^^ Suc k) idx))"

definition normalize_all :: "mat \<Rightarrow> vec \<Rightarrow> mat" where
  \<comment> \<open>every row divided by its degree entry, a zero degree taken as 1\<close>
  "normalize_all data data_sum = div_rows data (map (\<lambda>d. if d = 0 then 1 else d) data_sum)"

definition normalized_pass :: "mat \<Rightarrow> bool \<Rightarrow> mat \<times> nat list \<Rightarrow> error + mat \<times> nat list" where
  \<comment> \<open>multiply by the edge graph, restrict the rows to the new active set, divide each
      of those rows by its entry of the active-degree vector\<close>
  "normalized_pass e use_sparse x =
     (case x of (data, idx) \<Rightarrow>
        if \<not> in_range idx (ncols e) then Inl IndexError
        else
          (let data_sum = mat_vec e (indicator (ncols e) idx) in
           and_then (morph_mult data e use_sparse idx None) (\<lambda>full.
           and_then (sel_rows full (grow e idx)) (\<lambda>restricted.
             Inr (div_rows restricted (vec_sel data_sum (grow e idx)), grow e idx)))))"

definition terminal_pass :: "mat \<Rightarrow> bool \<Rightarrow> mat \<times> nat list \<Rightarrow> error + mat" where
  \<comment> \<open>multiply by the edge graph, keep the full-width result, apply the final
      normalization only\<close>
  "terminal_pass e use_sparse x =
     (case x of (data, idx) \<Rightarrow>
        if \<not> in_range idx (ncols e) then Inl IndexError
        else
          (let data_sum = mat_vec e (indicator (ncols e) idx) in
           and_then (morph_mult data e use_sparse idx None) (\<lambda>full.
             final_normalize use_sparse full (grow e idx) data_sum)))"

primrec n_passes :: "nat \<Rightarrow> mat \<Rightarrow> bool \<Rightarrow> mat \<times> nat list \<Rightarrow> error + mat \<times> nat list" where
  "n_passes 0 e use_sparse x = Inr x"
| "n_passes (Suc m) e use_sparse x =
     and_then (normalized_pass e use_sparse x) (n_passes m e use_sparse)"

definition valid_smoother_input :: "mat \<Rightarrow> nat \<Rightarrow> mat \<Rightarrow> nat list \<Rightarrow> bool" where
  \<comment> \<open>an edge graph over \<open>n_vertices\<close> vertices, and a buffer with one row for each
      vertex of a strictly increasing subset of them\<close>
  "valid_smoother_input e n_vertices data idx_use =
     (ncols e = n_vertices \<and> nrows e = n_vertices \<and> wf_mat e \<and>
      sorted_wrt (<) idx_use \<and> in_range idx_use n_vertices \<and>
      nrows data = length idx_use \<and> wf_mat data)"

definition nonneg :: "mat \<Rightarrow> bool" where
  "nonneg e = list_all (list_all (\<lambda>x. 0 \<le> x)) (mrows e)"

subsection \<open>Small meshes for concrete runs\<close>

definition pair_graph :: mat where
  \<comment> \<open>two vertices joined by an edge, self-loops added\<close>
  "pair_graph = Mat 2 [[1, 1], [1, 1]]"

definition path_graph :: mat where
  \<comment> \<open>three vertices in a row, self-loops added\<close>
  "path_graph = Mat 3 [[1, 1, 0], [1, 1, 1], [0, 1, 1]]"

definition pair_externals :: externals where
  \<comment> \<open>two spheres of two joined vertices each, identity morph maps, no volume data\<close>
  "pair_externals =
     \<lparr>ext_n_surf = (2, 2), ext_nearest = ([0, 1], [0, 1]),
      ext_edges = (Mat 2 [[0, 1], [1, 0]], Mat 2 [[0, 1], [1, 0]]),
      ext_maps = (eye 2, eye 2),
      ext_sparse_morph = Inl IOError, ext_morph_sdr = Inl IOError\<rparr>"

definition st01 :: store where
  \<comment> \<open>a store whose only list, at address 0, holds the vertex arrays [0] and [1]\<close>
  "st01 = fst (alloc empty_store [[0], [1]])"

definition pair_morph :: SourceMorph where
  \<comment> \<open>the operator assembled from a source estimate on the vertices [0] and [1]\<close>
  "pair_morph =
     \<lparr>m_subject_from = Some ''sample'', m_subject_to = ''target'', m_kind = ''surface'',
      m_niter_affine = [100, 100, 10], m_niter_sdr = [5, 5, 3], m_spacing = GradeNone,
      m_smooth = None, m_xhemi = False,
      m_morph_mat = Some (Mat 2 [[1, 0], [1, 0], [0, 1], [0, 1]]),
      m_vertices_to = Some 0, m_morph_shape = PNone, m_morph_zooms = PNone,
      m_morph_affine = PNone, m_pre_sdr_affine = None, m_sdr_mapping = None,
      m_src_data = SurfData [[0], [1]]\<rparr>"

definition pair_store :: store where
  \<comment> \<open>the store after assembling \<open>pair_morph\<close>: its destination vertices at address 0\<close>
  "pair_store = fst (alloc empty_store [[0, 1], [0, 1]])"

definition no_libraries :: libraries where
  \<comment> \<open>neither nibabel nor dipy is installed\<close>
  "no_libraries =
     \<lparr>nibabel_ok = False, dipy_ok = False, lib_reslice = (\<lambda>_ _ _ _. Inl ImportError),
      lib_affine_transform = (\<lambda>_ _. Inl ImportError),
      lib_sdr_transform = (\<lambda>_ _. Inl ImportError)\<rparr>"

definition plain_libraries :: libraries where
  \<comment> \<open>both packages installed; reslicing and the two transforms return what they are given\<close>
  "plain_libraries =
     \<lparr>nibabel_ok = True, dipy_ok = True,
      lib_reslice = (\<lambda>data affine zooms new_zooms. Inr (data, affine)),
      lib_affine_transform = (\<lambda>ob x. Inr x), lib_sdr_transform = (\<lambda>ob x. Inr x)\<rparr>"

definition eye4 :: pyval where
  "eye4 = PArr (NdArray [4, 4] [1, 0, 0, 0,  0, 1, 0, 0,  0, 0, 1, 0,  0, 0, 0, 1])"

definition voxel_src :: src where
  \<comment> \<open>a volume source space of two voxels in a row, both in use\<close>
  "voxel_src = SrcSpaces ''volume'' [[0, 1]] (Some ''sample'')
     (PDict [(''src_shape'', PSeq [PInt 2, PInt 1, PInt 1]),
             (''src_affine_vox'', eye4), (''src_affine_src'', eye4), (''src_affine_ras'', eye4),
             (''src_shape_full'', PSeq [PInt 2, PInt 1, PInt 1]),
             (''interpolator'', PArr (NdArray [2, 2] [1, 0, 0, 1])),
             (''inuse'', PArr (NdArray [2] [1, 1]))])"

definition voxel_externals :: externals where
  \<comment> \<open>a registration onto a volume of the same two voxels\<close>
  "voxel_externals =
     \<lparr>ext_n_surf = (0, 0), ext_nearest = ([], []),
      ext_edges = (Mat 0 [], Mat 0 []), ext_maps = (Mat 0 [], Mat 0 []),
      ext_sparse_morph = Inl IOError,
      ext_morph_sdr = Inr (PSeq [PNum 1, PNum 1, PNum 2], PSeq [PNum 1, PNum 1, PNum 1], eye4,
                           PyObj ''AffineMap'' PNone, PyObj ''DiffeomorphicMap'' PNone)\<rparr>"

definition voxel_morph :: SourceMorph where
  \<comment> \<open>the operator assembled from \<open>voxel_src\<close> with \<open>voxel_externals\<close>\<close>
  "voxel_morph =
     \<lparr>m_subject_from = Some ''sample'', m_subject_to = ''target'', m_kind = ''volume'',
      m_niter_affine = [100, 100, 10], m_niter_sdr = [5, 5, 3], m_spacing = GradeInt 5,
      m_smooth = None, m_xhemi = False, m_morph_mat = None, m_vertices_to = None,
      m_morph_shape = PSeq [PNum 1, PNum 1, PNum 2],
      m_morph_zooms = PSeq [PNum 1, PNum 1, PNum 1], m_morph_affine = eye4,
      m_pre_sdr_affine = Some (PyObj ''AffineMap'' PNone),
      m_sdr_mapping = Some (PyObj ''DiffeomorphicMap'' PNone),
      m_src_data = VolData
        (PDict [(''src_shape'', PSeq [PInt 2, PInt 1, PInt 1]),
                (''src_affine_vox'', eye4), (''src_affine_src'', eye4), (''src_affine_ras'', eye4),
                (''src_shape_full'', PSeq [PInt 2, PInt 1, PInt 1]),
                (''interpolator'', PArr (NdArray [2, 2] [1, 0, 0, 1])),
                (''inuse'', PArr (NdArray [2] [1, 1]))])\<rparr>"

definition voxel_stc :: stc where
  \<comment> \<open>a volume source estimate with one sample on the two voxels\<close>
  "voxel_stc = \<lparr>stc_klass = VolSourceEstimate, stc_data = Dense (Mat 1 [[3], [4]]),
      stc_vertices = [[0, 1]], stc_tmin = 0, stc_tstep = 1, stc_subject = Some ''sample''\<rparr>"

definition pair_stc :: stc where
  \<comment> \<open>a source estimate with one sample on the vertices [0] and [1]\<close>
  "pair_stc = \<lparr>stc_klass = SourceEstimate, stc_data = Dense (Mat 1 [[1], [2]]),
      stc_vertices = [[0], [1]], stc_tmin = 0, stc_tstep = 1, stc_subject = Some ''sample''\<rparr>"

definition pair_halves :: "buffer \<times> buffer" where
  "pair_halves = (Dense (Mat 1 [[1]]), Dense (Mat 1 [[2]]))"

definition vector_data :: arr3 where
  \<comment> \<open>vector data on two vertices: three components, one sample\<close>
  "vector_data = Arr3 FloatType (2, 3, 1) [[[1], [2], [3]], [[4], [5], [6]]]"

definition vector_stc :: stc where
  \<comment> \<open>a vector source estimate carrying \<open>vector_data\<close> on the vertices [0] and [1]\<close>
  "vector_stc = \<lparr>stc_klass = VectorSourceEstimate, stc_data = Dense3 vector_data,
      stc_vertices = [[0], [1]], stc_tmin = 0, stc_tstep = 1, stc_subject = Some ''sample''\<rparr>"

definition vector_halves :: "buffer \<times> buffer" where
  "vector_halves = (Dense3 (Arr3 FloatType (1, 3, 1) [[[1], [2], [3]]]),
                    Dense3 (Arr3 FloatType (1, 3, 1) [[[4], [5], [6]]]))"

section \<open>Properties\<close>

subsection \<open>Shapes and the smoothing loop\<close>

lemma and_then_Inl [simp]: "and_then (Inl err) f = Inl err"
  by (simp add: and_then_def)

lemma and_then_Inr [simp]: "and_then (Inr x) f = f x"
  by (simp add: and_then_def)

lemma and_then_eq_Inr:
  "and_then m f = Inr y \<longleftrightarrow> (\<exists>x. m = Inr x \<and> f x = Inr y)"
  by (cases m) simp_all

lemma and_then_assoc: "and_then (and_then m f) g = and_then m (\<lambda>x. and_then (f x) g)"
  by (cases m) simp_all

lemma nrows_Mat [simp]: "nrows (Mat c rs) = length rs"
  by (simp add: nrows_def)

lemma in_range_iff: "in_range idx n \<longleftrightarrow> (\<forall>i\<in>set idx. i < n)"
  by (simp add: in_range_def list_all_iff)

lemma length_foldl_update: "length (foldl (\<lambda>m i. m[i := x]) v idx) = length v"
  by (induction idx arbitrary: v) simp_all

lemma nth_foldl_update:
  "j < length v \<Longrightarrow> foldl (\<lambda>m i. m[i := x]) v idx ! j = (if j \<in> set idx then x else v ! j)"
  by (induction idx arbitrary: v) (auto simp: length_foldl_update nth_list_update)

lemma length_indicator [simp]: "length (indicator n idx) = n"
  by (simp add: indicator_def length_foldl_update zeros_def)

lemma indicator_nth: "j < n \<Longrightarrow> indicator n idx ! j = (if j \<in> set idx then 1 else 0)"
  by (simp add: indicator_def nth_foldl_update zeros_def)

lemma length_mat_vec [simp]: "length (mat_vec e v) = nrows e"
  by (simp add: mat_vec_def nrows_def)

lemma sorted_where_nz: "sorted_wrt (<) (where_nz v)"
  by (simp add: where_nz_def sorted_wrt_filter)

lemma set_where_nz: "set (where_nz v) = {i. i < length v \<and> v ! i \<noteq> 0}"
  by (auto simp: where_nz_def)

lemma in_range_where_nz: "in_range (where_nz v) (length v)"
  by (simp add: in_range_iff set_where_nz)

lemma strict_sorted_length_le:
  assumes "sorted_wrt (<) idx" and "in_range idx n"
  shows "length idx \<le> n"
proof -
  have "distinct idx" using assms(1) by (simp add: strict_sorted_iff)
  then have "length idx = card (set idx)" by (simp add: distinct_card)
  also have "\<dots> \<le> card {..<n}"
    using assms(2) by (intro card_mono) (auto simp: in_range_iff)
  finally show ?thesis by simp
qed

lemma sorted_grow: "sorted_wrt (<) (grow e idx)"
  by (simp add: grow_def sorted_where_nz)

lemma in_range_grow: "in_range (grow e idx) (nrows e)"
  using in_range_where_nz [of "mat_vec e (indicator (ncols e) idx)"] by (simp add: grow_def)

lemma mat_mul_ok:
  "ncols a = nrows b \<Longrightarrow>
   \<exists>c. mat_mul a b = Inr c \<and> nrows c = nrows a \<and> ncols c = ncols b \<and> wf_mat c"
  by (simp add: mat_mul_def wf_mat_def list_all_iff nrows_def)

lemma morph_mult_full_ok:
  assumes "ncols e = n" "nrows e = n" "sorted_wrt (<) idx" "in_range idx n"
    "nrows data = length idx"
  shows "\<exists>full. morph_mult data e us idx None = Inr full \<and> nrows full = n \<and>
           ncols full = ncols data \<and> wf_mat full"
proof (cases "length idx < ncols e")
  case True
  show ?thesis
  proof (cases us)
    case True
    have "sel_cols e idx = Inr (Mat (length idx) (map (\<lambda>r. map (\<lambda>i. r ! i) idx) (mrows e)))"
      using assms by (simp add: sel_cols_def)
    moreover obtain c where "mat_mul (Mat (length idx) (map (\<lambda>r. map (\<lambda>i. r ! i) idx) (mrows e))) data = Inr c"
      "nrows c = nrows e" "ncols c = ncols data" "wf_mat c"
      using mat_mul_ok [of "Mat (length idx) (map (\<lambda>r. map (\<lambda>i. r ! i) idx) (mrows e))" data] assms
      by (auto simp: nrows_def)
    ultimately show ?thesis using \<open>length idx < ncols e\<close> True assms
      by (simp add: morph_mult_def)
  next
    case False
    have d: "d_sparse (ncols e) idx data = Inr (Mat (ncols data)
                 (map (\<lambda>r. vsum (ncols data) (map snd (filter (\<lambda>(i, row). i = r) (zip idx (mrows data)))))
                      [0..<ncols e]))" (is "_ = Inr ?d")
      using assms by (simp add: d_sparse_def)
    obtain c where "mat_mul e ?d = Inr c" "nrows c = nrows e" "ncols c = ncols data" "wf_mat c"
      using mat_mul_ok [of e ?d] by auto
    then show ?thesis using \<open>length idx < ncols e\<close> False assms d
      by (simp add: morph_mult_def)
  qed
next
  case False
  with strict_sorted_length_le [OF assms(3,4)] assms have "ncols e = nrows data" by simp
  from mat_mul_ok [OF this] False assms show ?thesis
    by (auto simp: morph_mult_def)
qed

lemma morph_mult_Some:
  "morph_mult data e us idx (Some out) =
     and_then (morph_mult data e us idx None) (\<lambda>full. sel_rows full out)"
  by (simp add: morph_mult_def and_then_assoc)


lemma nrows_div_rows: "length ds = nrows m \<Longrightarrow> nrows (div_rows m ds) = nrows m"
  by (simp add: div_rows_def nrows_def)

lemma ncols_div_rows [simp]: "ncols (div_rows m ds) = ncols m"
  by (simp add: div_rows_def)

lemma wf_div_rows: "wf_mat m \<Longrightarrow> wf_mat (div_rows m ds)"
  by (auto simp: div_rows_def wf_mat_def list_all_iff dest!: set_zip_leftD)

lemma sel_rows_ok:
  "in_range idx (nrows m) \<Longrightarrow>
   sel_rows m idx = Inr (Mat (ncols m) (map (\<lambda>i. mrows m ! i) idx))"
  by (simp add: sel_rows_def)

lemma wf_sel_rows:
  "wf_mat m \<Longrightarrow> in_range idx (nrows m) \<Longrightarrow> wf_mat (Mat (ncols m) (map (\<lambda>i. mrows m ! i) idx))"
  by (auto simp: wf_mat_def list_all_iff in_range_iff nrows_def)

lemma smooth_step_ok:
  assumes v: "valid_smoother_input e n data idx"
  shows "\<exists>st full. smooth_step e us s n k data idx = Inr st \<and>
           morph_mult data e us idx None = Inr full \<and> nrows full = n \<and> wf_mat full \<and>
           ncols full = ncols data \<and>
           ls_k st = k \<and> ls_idx_use st = grow e idx \<and>
           ls_data_sum st = mat_vec e (indicator (ncols e) idx) \<and>
           ls_done st = last_iteration s n k (grow e idx) \<and>
           (ls_done st \<longrightarrow> ls_data st = full) \<and>
           (\<not> ls_done st \<longrightarrow> valid_smoother_input e n (ls_data st) (ls_idx_use st) \<and>
               ncols (ls_data st) = ncols data)"
proof -
  from v have e: "ncols e = n" "nrows e = n" "wf_mat e" and i: "sorted_wrt (<) idx" "in_range idx n"
    and d: "nrows data = length idx" "wf_mat data"
    by (simp_all add: valid_smoother_input_def)
  obtain full where f: "morph_mult data e us idx None = Inr full" "nrows full = n"
      "ncols full = ncols data" "wf_mat full"
    using morph_mult_full_ok [OF e(1,2) i d(1)] by blast
  let ?g = "grow e idx"
  have g: "in_range ?g (nrows full)" "sorted_wrt (<) ?g"
    using in_range_grow [of e idx] e f by (simp_all add: sorted_grow)
  let ?r = "Mat (ncols full) (map (\<lambda>i. mrows full ! i) ?g)"
  have r: "sel_rows full ?g = Inr ?r" "wf_mat ?r"
    using sel_rows_ok [OF g(1)] wf_sel_rows [OF f(4) g(1)] by blast+
  let ?ds = "vec_sel (mat_vec e (indicator (ncols e) idx)) ?g"
  have n: "valid_smoother_input e n (div_rows ?r ?ds) ?g"
    using e g f r by (simp add: valid_smoother_input_def nrows_div_rows wf_div_rows vec_sel_def)
  show ?thesis
    using e i f r n
    by (cases "last_iteration s n k (grow e idx)")
       (auto simp: smooth_step_def Let_def morph_mult_Some grow_def)
qed

lemma smooth_loop_rule:
  assumes "valid_smoother_input e n data idx" and "k \<le> n_iter" and "P k data idx"
    and step: "\<And>k data idx st. valid_smoother_input e n data idx \<Longrightarrow> P k data idx \<Longrightarrow>
        k < n_iter \<Longrightarrow> smooth_step e us s n k data idx = Inr st \<Longrightarrow> \<not> ls_done st \<Longrightarrow>
        P (Suc k) (ls_data st) (ls_idx_use st)"
    and fin: "\<And>k data idx st. valid_smoother_input e n data idx \<Longrightarrow> P k data idx \<Longrightarrow>
        k \<le> n_iter \<Longrightarrow> smooth_step e us s n k data idx = Inr st \<Longrightarrow>
        ls_done st \<or> k = n_iter \<Longrightarrow> Q st"
  shows "\<exists>st. smooth_loop e us s n k data idx = Inr st \<and> Q st"
  using assms(1-3)
proof (induction "n_iter - k" arbitrary: k data idx)
  case 0
  then have k: "k = n_iter" by simp
  obtain st where st: "smooth_step e us s n k data idx = Inr st"
    using smooth_step_ok [OF "0.prems"(1)] by blast
  then have "smooth_loop e us s n k data idx = Inr st"
    using k by (subst smooth_loop.simps) simp
  moreover have "Q st" using fin [OF "0.prems"(1,3,2) st] k by simp
  ultimately show ?case by blast
next
  case (Suc m)
  then have k: "k < n_iter" by simp
  obtain st where st: "smooth_step e us s n k data idx = Inr st"
    and nd: "\<not> ls_done st \<longrightarrow> valid_smoother_input e n (ls_data st) (ls_idx_use st)"
    using smooth_step_ok [OF Suc.prems(1)] by blast
  show ?case
  proof (cases "ls_done st")
    case True
    then have "smooth_loop e us s n k data idx = Inr st"
      using st by (subst smooth_loop.simps) simp
    moreover have "Q st" using fin [OF Suc.prems(1,3,2) st] True by simp
    ultimately show ?thesis by blast
  next
    case False
    have "\<exists>st'. smooth_loop e us s n (Suc k) (ls_data st) (ls_idx_use st) = Inr st' \<and> Q st'"
    proof (rule Suc.hyps(1))
      show "m = n_iter - Suc k" using Suc.hyps(2) by simp
      show "valid_smoother_input e n (ls_data st) (ls_idx_use st)" using nd False by simp
      show "Suc k \<le> n_iter" using k by simp
      show "P (Suc k) (ls_data st) (ls_idx_use st)"
        using step [OF Suc.prems(1,3) k st False] .
    qed
    moreover have "smooth_loop e us s n k data idx
                 = smooth_loop e us s n (Suc k) (ls_data st) (ls_idx_use st)"
      using st False k by (subst smooth_loop.simps) simp
    ultimately show ?thesis by simp
  qed
qed


lemma funpow_grow_Suc: "grow e ((grow e ^^ k) idx) = (grow e ^^ Suc k) idx"
  by simp

lemma smooth_loop_None:
  assumes v: "valid_smoother_input e n data idx"
  shows "\<exists>st. smooth_loop e us s n 0 data idx = Inr st \<and> ls_k st \<le> n_iter \<and>
           (s = None \<longrightarrow> ls_done st \<and> (ls_k st = n_iter \<or> covers e n idx (ls_k st)) \<and>
              (\<forall>j<ls_k st. \<not> covers e n idx j))"
proof (rule smooth_loop_rule [where P = "\<lambda>k d i. i = (grow e ^^ k) idx \<and>
          (s = None \<longrightarrow> (\<forall>j<k. \<not> covers e n idx j))", OF v])
  show "0 \<le> n_iter" by simp
  show "idx = (grow e ^^ 0) idx \<and> (s = None \<longrightarrow> (\<forall>j<0. \<not> covers e n idx j))" by simp
next
  fix k d i st
  assume a: "valid_smoother_input e n d i"
    "i = (grow e ^^ k) idx \<and> (s = None \<longrightarrow> (\<forall>j<k. \<not> covers e n idx j))"
    "smooth_step e us s n k d i = Inr st" "\<not> ls_done st"
  from smooth_step_ok [OF a(1), of us s k] a(3)
  have st: "ls_idx_use st = grow e i" "ls_done st = last_iteration s n k (grow e i)"
    by auto
  have "s = None \<longrightarrow> \<not> covers e n idx k"
    using a(2,4) st by (auto simp: last_iteration_def covers_def)
  then show "ls_idx_use st = (grow e ^^ Suc k) idx \<and>
        (s = None \<longrightarrow> (\<forall>j<Suc k. \<not> covers e n idx j))"
    using a(2) st(1) by (auto simp: less_Suc_eq)
next
  fix k d i st
  assume a: "valid_smoother_input e n d i"
    "i = (grow e ^^ k) idx \<and> (s = None \<longrightarrow> (\<forall>j<k. \<not> covers e n idx j))"
    "k \<le> n_iter" "smooth_step e us s n k d i = Inr st" "ls_done st \<or> k = n_iter"
  from smooth_step_ok [OF a(1), of us s k] a(4)
  have st: "ls_k st = k" "ls_done st = last_iteration s n k (grow e i)"
    by auto
  show "ls_k st \<le> n_iter \<and>
        (s = None \<longrightarrow> ls_done st \<and> (ls_k st = n_iter \<or> covers e n idx (ls_k st)) \<and>
           (\<forall>j<ls_k st. \<not> covers e n idx j))"
    using a(2,3,5) st by (auto simp: last_iteration_def covers_def)
qed

lemma smooth_loop_Some:
  assumes v: "valid_smoother_input e n data idx" and s: "s \<le> n_iter"
  shows "\<exists>st. smooth_loop e us (Some (int s)) n 0 data idx = Inr st \<and> ls_k st = s \<and> ls_done st"
proof (rule smooth_loop_rule [where P = "\<lambda>k d i. k \<le> s", OF v])
  show "0 \<le> n_iter" by simp
  show "0 \<le> s" by simp
next
  fix k d i st
  assume a: "valid_smoother_input e n d i" "k \<le> s"
    "smooth_step e us (Some (int s)) n k d i = Inr st" "\<not> ls_done st"
  from smooth_step_ok [OF a(1), of us "Some (int s)" k] a(3)
  have "ls_done st = last_iteration (Some (int s)) n k (grow e i)" by auto
  with a(2,4) show "Suc k \<le> s" by (auto simp: last_iteration_def)
next
  fix k d i st
  assume a: "valid_smoother_input e n d i" "k \<le> s" "k \<le> n_iter"
    "smooth_step e us (Some (int s)) n k d i = Inr st" "ls_done st \<or> k = n_iter"
  from smooth_step_ok [OF a(1), of us "Some (int s)" k] a(4)
  have "ls_k st = k" "ls_done st = last_iteration (Some (int s)) n k (grow e i)" by auto
  with a(2,3,5) s show "ls_k st = s \<and> ls_done st" by (auto simp: last_iteration_def)
qed

lemma smooth_loop_exhausted:
  assumes v: "valid_smoother_input e n data idx" and s: "int n_iter < s"
  shows "\<exists>st. smooth_loop e us (Some s) n 0 data idx = Inr st \<and> ls_k st = n_iter \<and> \<not> ls_done st"
proof (rule smooth_loop_rule [where P = "\<lambda>k d i. True", OF v])
  fix k d i st
  assume a: "valid_smoother_input e n d i" "k \<le> n_iter"
    "smooth_step e us (Some s) n k d i = Inr st" "ls_done st \<or> k = n_iter"
  from smooth_step_ok [OF a(1), of us "Some s" k] a(3)
  have "ls_k st = k" "ls_done st = last_iteration (Some s) n k (grow e i)" by auto
  with a(2,4) s show "ls_k st = n_iter \<and> \<not> ls_done st" by (auto simp: last_iteration_def)
qed simp_all

lemma step_then_final:
  "last_iteration s n k (grow e idx) \<Longrightarrow>
   and_then (smooth_step e us s n k data idx)
      (\<lambda>st. final_normalize us (ls_data st) (ls_idx_use st) (ls_data_sum st))
   = terminal_pass e us (data, idx)"
  by (simp add: smooth_step_def terminal_pass_def Let_def grow_def and_then_assoc)

lemma step_normalized:
  "\<not> last_iteration s n k (grow e idx) \<Longrightarrow>
   and_then (smooth_step e us s n k data idx) (\<lambda>st. Inr (ls_data st, ls_idx_use st))
   = normalized_pass e us (data, idx)"
  by (simp add: smooth_step_def normalized_pass_def Let_def grow_def and_then_assoc
      morph_mult_Some)

lemma step_done: 
  "smooth_step e us s n k data idx = Inr st \<Longrightarrow> ls_done st = last_iteration s n k (grow e idx)"
  by (auto simp: smooth_step_def Let_def grow_def and_then_eq_Inr split: if_splits)

lemma loop_eq_passes:
  assumes "k \<le> s" and "s \<le> n_iter"
  shows "and_then (smooth_loop e us (Some (int s)) n k data idx)
           (\<lambda>st. final_normalize us (ls_data st) (ls_idx_use st) (ls_data_sum st))
         = and_then (n_passes (s - k) e us (data, idx)) (terminal_pass e us)"
  using assms
proof (induction "s - k" arbitrary: k data idx)
  case 0
  then have l: "last_iteration (Some (int s)) n k (grow e idx)"
    by (simp add: last_iteration_def)
  have "smooth_loop e us (Some (int s)) n k data idx
        = smooth_step e us (Some (int s)) n k data idx"
    using step_done [of e us "Some (int s)" n k data idx] l
    by (subst smooth_loop.simps) (auto split: sum.splits)
  then show ?case using 0 step_then_final [OF l] by simp
next
  case (Suc m)
  then have l: "\<not> last_iteration (Some (int s)) n k (grow e idx)" and k: "k < n_iter"
    by (simp_all add: last_iteration_def)
  have sk: "s - k = Suc (s - Suc k)" using Suc by simp
  show ?case
  proof (cases "smooth_step e us (Some (int s)) n k data idx")
    case (Inl err)
    then have "smooth_loop e us (Some (int s)) n k data idx = Inl err"
      by (subst smooth_loop.simps) simp
    moreover have "normalized_pass e us (data, idx) = Inl err"
      using step_normalized [OF l, where us = us and data = data] Inl by simp
    ultimately show ?thesis by (simp add: sk)
  next
    case (Inr st)
    then have "smooth_loop e us (Some (int s)) n k data idx
        = smooth_loop e us (Some (int s)) n (Suc k) (ls_data st) (ls_idx_use st)"
      using step_done [OF Inr] l k by (subst smooth_loop.simps) simp
    moreover have "normalized_pass e us (data, idx) = Inr (ls_data st, ls_idx_use st)"
      using step_normalized [OF l, where us = us and data = data] Inr by simp
    moreover have "and_then (smooth_loop e us (Some (int s)) n (Suc k) (ls_data st) (ls_idx_use st))
           (\<lambda>st. final_normalize us (ls_data st) (ls_idx_use st) (ls_data_sum st))
         = and_then (n_passes (s - Suc k) e us (ls_data st, ls_idx_use st)) (terminal_pass e us)"
      using Suc by (intro Suc.hyps(1)) simp_all
    ultimately show ?thesis by (simp add: sk)
  qed
qed

lemmas eval_defs = smooth_step_def last_iteration_def indicator_def zeros_def mat_vec_def dot_def
  where_nz_def morph_mult_def sel_cols_def sel_rows_def mat_mul_def col_def div_rows_def vec_sel_def
  in_range_def nrows_def Let_def n_iter_def numeral_2_eq_2

lemma pair_graph_first: "smooth_step pair_graph True (Some 100) 2 0 (Mat 1 [[1]]) [0]
   = Inr \<lparr>ls_data = Mat 1 [[1], [1]], ls_idx_use = [0, 1], ls_data_sum = [1, 1], ls_k = 0, ls_done = False\<rparr>"
  by (simp add: eval_defs pair_graph_def)

lemma pair_graph_step: "k \<noteq> 100 \<Longrightarrow> smooth_step pair_graph True (Some 100) 2 k (Mat 1 [[1], [1]]) [0, 1]
   = Inr \<lparr>ls_data = Mat 1 [[1], [1]], ls_idx_use = [0, 1], ls_data_sum = [2, 2], ls_k = k, ls_done = False\<rparr>"
  by (simp add: eval_defs pair_graph_def)


lemma pair_graph_loop_fix:
  "1 \<le> k \<Longrightarrow> k \<le> 99 \<Longrightarrow>
   smooth_loop pair_graph True (Some 100) 2 k (Mat 1 [[1], [1]]) [0, 1]
   = Inr \<lparr>ls_data = Mat 1 [[1], [1]], ls_idx_use = [0, 1], ls_data_sum = [2, 2], ls_k = 99, ls_done = False\<rparr>"
proof (induction "99 - k" arbitrary: k)
  case 0
  then have "k = 99" by simp
  then show ?case
    by (subst smooth_loop.simps, subst pair_graph_step) (simp_all add: n_iter_def)
next
  case (Suc m)
  then have "smooth_loop pair_graph True (Some 100) 2 (Suc k) (Mat 1 [[1], [1]]) [0, 1]
   = Inr \<lparr>ls_data = Mat 1 [[1], [1]], ls_idx_use = [0, 1], ls_data_sum = [2, 2], ls_k = 99, ls_done = False\<rparr>"
    by (intro Suc.hyps(1)) simp_all
  moreover have "k \<noteq> 100" "\<not> n_iter \<le> k" using Suc by (simp_all add: n_iter_def)
  ultimately show ?case
    by (subst smooth_loop.simps, subst pair_graph_step) simp_all
qed

lemma pair_graph_loop: "smooth_loop pair_graph True (Some 100) 2 0 (Mat 1 [[1]]) [0]
   = Inr \<lparr>ls_data = Mat 1 [[1], [1]], ls_idx_use = [0, 1], ls_data_sum = [2, 2], ls_k = 99, ls_done = False\<rparr>"
  by (subst smooth_loop.simps, subst pair_graph_first, subst pair_graph_loop_fix [symmetric, of 1])
     (simp_all add: n_iter_def)


lemma sum_list_all_zero: "\<forall>x\<in>set xs. x = (0::rat) \<Longrightarrow> sum_list xs = 0"
  by (induction xs) auto

lemma dot_eq_0:
  assumes "\<And>j. j < length u \<Longrightarrow> j < length v \<Longrightarrow> u ! j = 0 \<or> v ! j = 0"
  shows "dot u v = 0"
proof -
  have "fst p * snd p = 0" if "p \<in> set (zip u v)" for p
  proof -
    from that obtain j where "u ! j = fst p" "v ! j = snd p" "j < length u" "j < length v"
      by (auto simp: in_set_zip)
    with assms [of j] show ?thesis by auto
  qed
  then have "\<forall>x\<in>set (map2 (*) u v). x = 0" by auto
  then show ?thesis unfolding dot_def by (rule sum_list_all_zero)
qed

lemma dot_indicator_zero:
  assumes nn: "list_all (\<lambda>x. 0 \<le> x) r" and len: "length r = n"
    and z: "dot r (indicator n idx) = 0" and j: "j \<in> set idx" "j < n"
  shows "r ! j = 0"
proof -
  have pos: "\<And>x. x \<in> set (map2 (*) r (indicator n idx)) \<Longrightarrow> 0 \<le> x"
    using nn by (auto simp: in_set_zip list_all_iff indicator_nth len [symmetric])
  have "\<forall>x\<in>set (map2 (*) r (indicator n idx)). x = 0"
    using z sum_list_nonneg_eq_0_iff [OF pos] unfolding dot_def by blast
  moreover have "(r ! j, indicator n idx ! j) \<in> set (zip r (indicator n idx))"
    using j len by (auto simp: in_set_zip intro!: exI [where x = j])
  then have "r ! j * indicator n idx ! j \<in> set (map2 (*) r (indicator n idx))"
    by force
  ultimately have "r ! j * indicator n idx ! j = 0" by blast
  then show ?thesis using j by (simp add: indicator_nth)
qed

lemma map_const_zeros: "map (\<lambda>t. 0) [0..<c] = zeros c"
  by (simp add: zeros_def map_replicate_const)

lemma morph_mult_zero_row:
  assumes e: "ncols e = n" "nrows e = n" "wf_mat e" "nonneg e"
    and i: "sorted_wrt (<) idx" "in_range idx n" and d: "nrows data = length idx"
    and mm: "morph_mult data e us idx None = Inr full"
    and k: "k < n" and z: "mat_vec e (indicator (ncols e) idx) ! k = 0"
  shows "mrows full ! k = zeros (ncols data)"
proof -
  let ?r = "mrows e ! k"
  have kr: "k < length (mrows e)" using k e by (simp add: nrows_def)
  have len: "length ?r = n" using e kr by (simp add: wf_mat_def list_all_iff)
  have nn: "list_all (\<lambda>x. 0 \<le> x) ?r"
    using e(4) nth_mem [OF kr] by (auto simp: nonneg_def list_all_iff)
  have dz: "dot ?r (indicator n idx) = 0" using z kr e by (simp add: mat_vec_def)
  have rz: "\<And>j. j \<in> set idx \<Longrightarrow> ?r ! j = 0"
    using dot_indicator_zero [OF nn len dz] i(2) by (simp add: in_range_iff)
  show ?thesis
  proof (cases "length idx < ncols e")
    case True
    show ?thesis
    proof (cases us)
      case True
      have "map (\<lambda>j. ?r ! j) idx = replicate (length idx) 0"
        using rz by (simp add: map_replicate_const [symmetric] cong: map_cong)
      then have "\<And>t. dot (map (\<lambda>j. ?r ! j) idx) (col data t) = 0"
        by (intro dot_eq_0) simp
      then show ?thesis
        using mm \<open>length idx < ncols e\<close> True i e d kr
        by (auto simp: morph_mult_def sel_cols_def mat_mul_def map_const_zeros nrows_def
            split: if_splits)
    next
      case False
      let ?d = "map (\<lambda>r. vsum (ncols data) (map snd (filter (\<lambda>(i, row). i = r) (zip idx (mrows data))))) [0..<ncols e]"
      have "dot ?r (col (Mat (ncols data) ?d) t) = 0" if "t < ncols data" for t
      proof (rule dot_eq_0)
        fix j assume "j < length ?r" "j < length (col (Mat (ncols data) ?d) t)"
        then have jn: "j < ncols e" by (simp add: col_def)
        show "?r ! j = 0 \<or> col (Mat (ncols data) ?d) t ! j = 0"
        proof (cases "j \<in> set idx")
          case True then show ?thesis using rz by simp
        next
          case False
          then have "filter (\<lambda>(i, row). i = j) (zip idx (mrows data)) = []"
            by (auto simp: filter_empty_conv dest: set_zip_leftD)
          then show ?thesis using jn that by (simp add: col_def vsum_def zeros_def)
        qed
      qed
      then have "map (\<lambda>t. dot ?r (col (Mat (ncols data) ?d) t)) [0..<ncols data] = zeros (ncols data)"
        by (simp add: map_const_zeros [symmetric] cong: map_cong)
      then show ?thesis
        using mm \<open>length idx < ncols e\<close> False i e d kr
        by (auto simp: morph_mult_def d_sparse_def mat_mul_def nrows_def split: if_splits)
    qed
  next
    case False
    have "distinct idx" using i(1) by (simp add: strict_sorted_iff)
    moreover have "set idx \<subseteq> {..<n}" using i(2) by (auto simp: in_range_iff)
    moreover have "length idx = n" using False strict_sorted_length_le [OF i] e by simp
    ultimately have "set idx = {..<n}"
      by (metis card_lessThan card_subset_eq distinct_card finite_lessThan)
    then have "\<And>j. j < length ?r \<Longrightarrow> ?r ! j = 0" using rz len by simp
    then have "\<And>t. dot ?r (col data t) = 0" by (intro dot_eq_0) simp
    then show ?thesis
      using mm False kr by (auto simp: morph_mult_def mat_mul_def map_const_zeros split: if_splits)
  qed
qed

lemma final_normalize_eq:
  assumes "nrows full = length ds"
  shows "final_normalize us full (where_nz ds) ds = Inr (normalize_all full ds)"
proof (cases us)
  case True
  then show ?thesis using assms by (simp add: final_normalize_def normalize_all_def)
next
  case False
  have r: "in_range (where_nz ds) (length ds)" by (rule in_range_where_nz)
  have "map (\<lambda>i. if i \<in> set (where_nz ds) then map (\<lambda>x. x / ds ! i) (mrows full ! i)
                  else mrows full ! i) [0..<nrows full]
        = map2 (\<lambda>r d. map (\<lambda>x. x / d) r) (mrows full) (map (\<lambda>d. if d = 0 then 1 else d) ds)"
    using assms by (intro nth_equalityI) (auto simp: nrows_def set_where_nz)
  then show ?thesis
    using False r assms by (simp add: final_normalize_def normalize_all_def div_rows_def)
qed

lemma smooth_loop_terminal:
  assumes v: "valid_smoother_input e n data idx"
  shows "\<exists>st. smooth_loop e us s n 0 data idx = Inr st \<and>
           (ls_done st \<longrightarrow> (\<exists>data' idx'. valid_smoother_input e n data' idx' \<and>
               ncols data' = ncols data \<and>
               morph_mult data' e us idx' None = Inr (ls_data st) \<and>
               nrows (ls_data st) = n \<and>
               ls_data_sum st = mat_vec e (indicator (ncols e) idx') \<and>
               ls_idx_use st = where_nz (ls_data_sum st)))"
proof (rule smooth_loop_rule [where P = "\<lambda>k d i. ncols d = ncols data", OF v])
  fix k d i st
  assume a: "valid_smoother_input e n d i" "ncols d = ncols data"
    "smooth_step e us s n k d i = Inr st" "\<not> ls_done st"
  from smooth_step_ok [OF a(1), of us s k] a(3,4) a(2)
  show "ncols (ls_data st) = ncols data" by auto
next
  fix k d i st
  assume a: "valid_smoother_input e n d i" "ncols d = ncols data"
    "smooth_step e us s n k d i = Inr st"
  from smooth_step_ok [OF a(1), of us s k] a(3)
  obtain full where "morph_mult d e us i None = Inr full" "nrows full = n"
    "ls_idx_use st = grow e i" "ls_data_sum st = mat_vec e (indicator (ncols e) i)"
    "ls_done st \<longrightarrow> ls_data st = full"
    by auto
  with a(1,2) show "ls_done st \<longrightarrow> (\<exists>data' idx'. valid_smoother_input e n data' idx' \<and>
               ncols data' = ncols data \<and>
               morph_mult data' e us idx' None = Inr (ls_data st) \<and>
               nrows (ls_data st) = n \<and>
               ls_data_sum st = mat_vec e (indicator (ncols e) idx') \<and>
               ls_idx_use st = where_nz (ls_data_sum st))"
    by (auto simp: grow_def)
qed simp_all



subsection \<open>Vertex resolver\<close>

lemma has_repeat_sorted_iff:
  "sorted xs \<Longrightarrow> has_repeat xs = (\<not> distinct xs)"
proof (induction xs rule: has_repeat.induct)
  case (1 x y ys)
  then show ?case by (auto simp: order.strict_iff_order)
qed simp_all

lemma has_repeat_sort: "has_repeat (sort xs) = (\<not> distinct xs)"
  using has_repeat_sorted_iff [of "sort xs"] by simp

lemma strict_sorted_sort: "distinct xs \<Longrightarrow> sorted_wrt (<) (sort xs)"
  by (simp add: strict_sorted_iff)

lemma strict_sorted_arange: "sorted_wrt (<) (arange n)"
  by (simp add: arange_def)

lemma replicate_not_distinct: "2 \<le> n \<Longrightarrow> \<not> distinct (replicate n x)"
proof -
  assume "2 \<le> n"
  then obtain m where "n = Suc (Suc m)"
    by (metis Suc_le_D numeral_2_eq_2 Suc_le_mono)
  then show ?thesis by simp
qed

text \<open>
  Claim C5, as amended. Outside the precomputed shortcut for subject fsaverage at
  grade 5, an integer grade whose nearest-neighbour mapping repeats a vertex of either
  sphere is rejected with the error that names the grade, and a successful call returns
  a new list holding exactly the two sorted mappings: the same vertices as many times
  as the search produced them, hence nothing dropped, each strictly increasing. On every
  successful integer-grade call, the shortcut included, both returned lists are
  strictly increasing.
\<close>

theorem grade_to_vertices_repeats_rejected:
  "(\<not> (subject = ''fsaverage'' \<and> g = 5) \<longrightarrow>
      \<not> distinct (fst nearest) \<or> \<not> distinct (snd nearest) \<longrightarrow>
      (\<exists>n. grade_to_vertices st subject (GradeInt g) n_surf nearest
             = (st, Inl (RepeatedVertices (GradeInt g) subject n)))) \<and>
   (\<not> (subject = ''fsaverage'' \<and> g = 5) \<longrightarrow>
      grade_to_vertices st subject (GradeInt g) n_surf nearest = (st', Inr a) \<longrightarrow>
      cells st' a = [sort (fst nearest), sort (snd nearest)] \<and>
      mset (cells st' a ! 0) = mset (fst nearest) \<and>
      mset (cells st' a ! 1) = mset (snd nearest)) \<and>
   (grade_to_vertices st subject (GradeInt g) n_surf nearest = (st', Inr a) \<longrightarrow>
      length (cells st' a) = 2 \<and> list_all (sorted_wrt (<)) (cells st' a))"
proof (intro conjI impI)
  assume "\<not> (subject = ''fsaverage'' \<and> g = 5)"
    and "\<not> distinct (fst nearest) \<or> \<not> distinct (snd nearest)"
  then show "\<exists>n. grade_to_vertices st subject (GradeInt g) n_surf nearest
                 = (st, Inl (RepeatedVertices (GradeInt g) subject n))"
    unfolding grade_to_vertices_def by (auto simp: has_repeat_sort Let_def)
next
  assume h: "\<not> (subject = ''fsaverage'' \<and> g = 5)"
    "grade_to_vertices st subject (GradeInt g) n_surf nearest = (st', Inr a)"
  then have c: "cells st' a = [sort (fst nearest), sort (snd nearest)]"
    unfolding grade_to_vertices_def
    by (auto simp: has_repeat_sort Let_def alloc_def split: if_splits)
  show "cells st' a = [sort (fst nearest), sort (snd nearest)]" by (rule c)
  show "mset (cells st' a ! 0) = mset (fst nearest)" by (simp add: c)
  show "mset (cells st' a ! 1) = mset (snd nearest)" by (simp add: c)
next
  assume h: "grade_to_vertices st subject (GradeInt g) n_surf nearest = (st', Inr a)"
  then have "cells st' a = [arange 10242, arange 10242] \<or>
             (cells st' a = [sort (fst nearest), sort (snd nearest)] \<and>
              distinct (fst nearest) \<and> distinct (snd nearest))"
    unfolding grade_to_vertices_def
    by (auto simp: has_repeat_sort Let_def alloc_def split: if_splits)
  then show "length (cells st' a) = 2" by auto
  from \<open>cells st' a = [arange 10242, arange 10242] \<or> _\<close>
  show "list_all (sorted_wrt (<)) (cells st' a)"
    by (auto simp: strict_sorted_sort strict_sorted_arange)
qed

theorem grade_to_vertices_repeats_rejected_witness:
  "(\<exists>n. grade_to_vertices empty_store ''sample'' (GradeInt 1) (5, 5) ([3, 1, 3], [0, 2, 4])
          = (empty_store, Inl (RepeatedVertices (GradeInt 1) ''sample'' n))) \<and>
   (\<exists>st'. grade_to_vertices empty_store ''sample'' (GradeInt 1) (5, 5) ([3, 1, 4], [0, 4, 2])
          = (st', Inr 0) \<and>
        cells st' 0 = [[1, 3, 4], [0, 2, 4]] \<and> list_all (sorted_wrt (<)) (cells st' 0))"
proof (intro conjI)
  show "\<exists>n. grade_to_vertices empty_store ''sample'' (GradeInt 1) (5, 5) ([3, 1, 3], [0, 2, 4])
          = (empty_store, Inl (RepeatedVertices (GradeInt 1) ''sample'' n))"
    using grade_to_vertices_repeats_rejected
      [where subject = "''sample''" and g = 1 and nearest = "([3, 1, 3], [0, 2, 4])"
        and st = empty_store and n_surf = "(5, 5)"]
    by simp
next
  define st1 where "st1 = fst (alloc empty_store [[1, 3, 4], [0, 2, 4]])"
  have run: "grade_to_vertices empty_store ''sample'' (GradeInt 1) (5, 5) ([3, 1, 4], [0, 4, 2])
          = (st1, Inr 0)"
    by (simp add: grade_to_vertices_def st1_def alloc_def empty_store_def)
  from grade_to_vertices_repeats_rejected
      [where subject = "''sample''" and g = 1 and nearest = "([3, 1, 4], [0, 4, 2])"
        and st = empty_store and n_surf = "(5, 5)" and st' = st1 and a = 0] run
  have "cells st1 0 = [[1, 3, 4], [0, 2, 4]] \<and> list_all (sorted_wrt (<)) (cells st1 0)"
    by simp
  with run show "\<exists>st'. grade_to_vertices empty_store ''sample'' (GradeInt 1) (5, 5)
            ([3, 1, 4], [0, 4, 2]) = (st', Inr 0) \<and>
        cells st' 0 = [[1, 3, 4], [0, 2, 4]] \<and> list_all (sorted_wrt (<)) (cells st' 0)"
    by blast
qed

text \<open>
  Claim C5 as stated fails on the shortcut: for subject fsaverage and grade 5 no
  mapping is computed or validated, so a sphere whose mapping repeats a vertex is
  answered with the literal index range instead of the error.
\<close>

theorem grade_to_vertices_shortcut_counterexample:
  "\<not> distinct (replicate 10242 (0::nat)) \<and>
   snd (grade_to_vertices empty_store ''fsaverage'' (GradeInt 5) (7, 7)
          (replicate 10242 0, replicate 10242 0)) = Inr 0 \<and>
   cells (fst (grade_to_vertices empty_store ''fsaverage'' (GradeInt 5) (7, 7)
          (replicate 10242 0, replicate 10242 0))) 0 = [arange 10242, arange 10242]"
  by (simp add: grade_to_vertices_def alloc_def empty_store_def replicate_not_distinct)

subsection \<open>Diffusion smoother\<close>

text \<open>
  Claim C1, as amended. For an iteration count \<open>N\<close> from 1 to 100, \<^verbatim>\<open>_morph_buffer\<close>
  is \<open>N - 1\<close> normalized passes (edge-graph multiply, rows restricted to the new active
  set, those rows divided by their entries of \<open>data_sum\<close>) followed by one terminal pass
  (edge-graph multiply, full-width result, final normalization only) and the
  multiplication by the selected rows of the morph map: \<open>N\<close> multiply passes in total.
  On a valid input the loop returns at index \<open>N - 1\<close>, with the flag \<open>done\<close> set.
\<close>

theorem smooth_N_passes:
  assumes "1 \<le> N" and "N \<le> 100"
  shows "morph_buffer2 use_sparse data idx_use e (Some N) n_vertices nearest maps
           = and_then (n_passes (nat (N - 1)) e use_sparse (data, idx_use)) (\<lambda>x.
             and_then (terminal_pass e use_sparse x) (\<lambda>d.
             and_then (sel_rows maps nearest) (\<lambda>m. mat_mul m d))) \<and>
         (valid_smoother_input e n_vertices data idx_use \<longrightarrow>
            (\<exists>st. smooth_loop e use_sparse (Some (N - 1)) n_vertices 0 data idx_use = Inr st \<and>
                  int (ls_k st) = N - 1 \<and> ls_done st))"
proof
  have s: "N - 1 = int (nat (N - 1))" "nat (N - 1) \<le> n_iter"
    using assms by (simp_all add: n_iter_def)
  have "and_then (smooth_loop e use_sparse (Some (N - 1)) n_vertices 0 data idx_use)
           (\<lambda>st. final_normalize use_sparse (ls_data st) (ls_idx_use st) (ls_data_sum st))
         = and_then (n_passes (nat (N - 1)) e use_sparse (data, idx_use)) (terminal_pass e use_sparse)"
    using loop_eq_passes [of 0 "nat (N - 1)" e use_sparse n_vertices data idx_use] s by simp
  then show "morph_buffer2 use_sparse data idx_use e (Some N) n_vertices nearest maps
           = and_then (n_passes (nat (N - 1)) e use_sparse (data, idx_use)) (\<lambda>x.
             and_then (terminal_pass e use_sparse x) (\<lambda>d.
             and_then (sel_rows maps nearest) (\<lambda>m. mat_mul m d)))"
    using assms unfolding morph_buffer2_def Let_def
    by (simp add: and_then_assoc [symmetric])
  show "valid_smoother_input e n_vertices data idx_use \<longrightarrow>
            (\<exists>st. smooth_loop e use_sparse (Some (N - 1)) n_vertices 0 data idx_use = Inr st \<and>
                  int (ls_k st) = N - 1 \<and> ls_done st)"
  proof
    assume v: "valid_smoother_input e n_vertices data idx_use"
    from smooth_loop_Some [OF v s(2), of use_sparse] s(1) show "\<exists>st. smooth_loop e use_sparse (Some (N - 1)) n_vertices 0 data idx_use = Inr st \<and>
                  int (ls_k st) = N - 1 \<and> ls_done st"
      by auto
  qed
qed

theorem smooth_N_passes_witness:
  "morph_buffer2 True (Mat 1 [[1]]) [0] pair_graph (Some 2) 2 [0, 1] (eye 2)
     = and_then (n_passes (nat (2 - 1)) pair_graph True (Mat 1 [[1]], [0])) (\<lambda>x.
       and_then (terminal_pass pair_graph True x) (\<lambda>d.
       and_then (sel_rows (eye 2) [0, 1]) (\<lambda>m. mat_mul m d))) \<and>
   (\<exists>st. smooth_loop pair_graph True (Some (2 - 1)) 2 0 (Mat 1 [[1]]) [0] = Inr st \<and>
         int (ls_k st) = 2 - 1 \<and> ls_done st)"
proof -
  have v: "valid_smoother_input pair_graph 2 (Mat 1 [[1]]) [0]"
    by (simp add: valid_smoother_input_def pair_graph_def wf_mat_def in_range_def nrows_def)
  have "(1::int) \<le> 2" and "(2::int) \<le> 100" by simp_all
  from smooth_N_passes [OF this, of True "Mat 1 [[1]]" "[0]" pair_graph 2 "[0, 1]" "eye 2"] v
  show ?thesis by blast
qed

text \<open>
  Claim C1 as stated fails above the ceiling: with \<open>smooth = 101\<close> the loop ends after
  index 99 without ever taking the terminal branch, and the final normalization then
  divides rows that the last pass had normalized already.
\<close>

theorem smooth_101_counterexample:
  "smooth_loop (Mat 2 [[1, 1], [1, 1]]) True (Some 100) 2 0 (Mat 1 [[1]]) [0]
     = Inr \<lparr>ls_data = Mat 1 [[1], [1]], ls_idx_use = [0, 1], ls_data_sum = [2, 2],
            ls_k = 99, ls_done = False\<rparr> \<and>
   morph_buffer2 True (Mat 1 [[1]]) [0] (Mat 2 [[1, 1], [1, 1]]) (Some 101) 2 [0, 1] (eye 2)
     = Inr (Mat 1 [[1 / 2], [1 / 2]])"
  using pair_graph_loop
  by (simp add: pair_graph_def morph_buffer2_def final_normalize_def div_rows_def nrows_def sel_rows_def
      in_range_def eye_def mat_mul_def col_def dot_def numeral_2_eq_2)

text \<open>
  Claim C2. When the loop has left through its terminal iteration, the buffer has one
  row for every vertex, and the final normalization, on the sparse and on the dense
  path alike, returns that buffer with every row divided by its entry of \<open>data_sum\<close>,
  a zero entry taken as 1. With a non-negative edge graph, the rows of the vertices with
  a zero entry, which smoothing never reached, are zero rows.
\<close>

theorem final_normalization_all_rows:
  assumes v: "valid_smoother_input e n_vertices data idx_use"
    and l: "smooth_loop e use_sparse smooth n_vertices 0 data idx_use = Inr st"
    and t: "ls_done st"
  shows "nrows (ls_data st) = n_vertices \<and> length (ls_data_sum st) = n_vertices \<and>
         final_normalize use_sparse (ls_data st) (ls_idx_use st) (ls_data_sum st)
           = Inr (normalize_all (ls_data st) (ls_data_sum st)) \<and>
         (nonneg e \<longrightarrow>
            (\<forall>i<n_vertices. ls_data_sum st ! i = 0 \<longrightarrow>
               mrows (normalize_all (ls_data st) (ls_data_sum st)) ! i = zeros (ncols data)))"
proof -
  from smooth_loop_terminal [OF v, of use_sparse smooth] l t
  obtain data' idx' where s: "valid_smoother_input e n_vertices data' idx'"
    "ncols data' = ncols data" "morph_mult data' e use_sparse idx' None = Inr (ls_data st)"
    "nrows (ls_data st) = n_vertices"
    "ls_data_sum st = mat_vec e (indicator (ncols e) idx')"
    "ls_idx_use st = where_nz (ls_data_sum st)"
    by auto
  from v have e: "ncols e = n_vertices" "nrows e = n_vertices" "wf_mat e"
    by (simp_all add: valid_smoother_input_def)
  from s(1) have i: "sorted_wrt (<) idx'" "in_range idx' n_vertices" "nrows data' = length idx'"
    by (simp_all add: valid_smoother_input_def)
  have len: "length (ls_data_sum st) = n_vertices" using s(5) e by simp
  have fn: "final_normalize use_sparse (ls_data st) (ls_idx_use st) (ls_data_sum st)
           = Inr (normalize_all (ls_data st) (ls_data_sum st))"
    using final_normalize_eq [of "ls_data st" "ls_data_sum st" use_sparse] s(4,6) len by simp
  have zr: "mrows (normalize_all (ls_data st) (ls_data_sum st)) ! k = zeros (ncols data)"
    if nn: "nonneg e" and k: "k < n_vertices" and z: "ls_data_sum st ! k = 0" for k
  proof -
    have "mrows (ls_data st) ! k = zeros (ncols data')"
      using morph_mult_zero_row [OF e nn i s(3) k] z s(5) by simp
    moreover have "k < length (mrows (ls_data st))" using s(4) k by (simp add: nrows_def)
    ultimately show ?thesis
      using z k len s(2) by (simp add: normalize_all_def div_rows_def zeros_def)
  qed
  show ?thesis using s(4) len fn zr by blast
qed

lemma path_graph_one_pass:
  "smooth_loop path_graph False (Some 0) 3 0 (Mat 1 [[1]]) [0]
     = Inr \<lparr>ls_data = Mat 1 [[1], [1], [0]], ls_idx_use = [0, 1], ls_data_sum = [1, 1, 0],
            ls_k = 0, ls_done = True\<rparr>"
  by (subst smooth_loop.simps)
     (simp add: eval_defs d_sparse_def vsum_def path_graph_def numeral_3_eq_3)

theorem final_normalization_all_rows_witness:
  "final_normalize False (Mat 1 [[1], [1], [0]]) [0, 1] [1, 1, 0]
     = Inr (normalize_all (Mat 1 [[1], [1], [0]]) [1, 1, 0]) \<and>
   mrows (normalize_all (Mat 1 [[1], [1], [0]]) [1, 1, 0]) ! 2 = zeros 1"
proof -
  have v: "valid_smoother_input path_graph 3 (Mat 1 [[1]]) [0]"
    by (simp add: valid_smoother_input_def path_graph_def wf_mat_def in_range_def nrows_def)
  have n: "nonneg path_graph" by (simp add: nonneg_def path_graph_def)
  from final_normalization_all_rows [OF v path_graph_one_pass] n show ?thesis by simp
qed

text \<open>
  Claim C6. On every valid input (an edge graph over \<open>n_vertices\<close> vertices, a strictly
  increasing vertex subset, one buffer row for each of its vertices), whatever \<open>smooth\<close>
  is, the smoothing loop returns a state without raising, after at most 100 iterations.
  With \<open>smooth = None\<close> it returns through the terminal branch, at the first iteration
  whose new active set covers all vertices, or at index 99 when there is none before.
\<close>

theorem smoothing_loop_terminates:
  assumes "valid_smoother_input e n_vertices data idx_use"
  shows "\<exists>st. smooth_loop e use_sparse (map_option (\<lambda>s. s - 1) smooth) n_vertices 0 data idx_use
              = Inr st \<and>
           ls_k st < 100 \<and>
           (smooth = None \<longrightarrow>
              ls_done st \<and> (ls_k st = 99 \<or> covers e n_vertices idx_use (ls_k st)) \<and>
              (\<forall>j<ls_k st. \<not> covers e n_vertices idx_use j))"
  using smooth_loop_None [OF assms, of use_sparse "map_option (\<lambda>s. s - 1) smooth"]
  by (auto simp: n_iter_def)

theorem smoothing_loop_terminates_witness:
  "\<exists>st. smooth_loop (pair_graph) False None 2 0 (Mat 1 [[1]]) [0] = Inr st \<and>
        ls_k st < 100 \<and> ls_done st \<and>
        (ls_k st = 99 \<or> covers (pair_graph) 2 [0] (ls_k st)) \<and>
        (\<forall>j<ls_k st. \<not> covers (pair_graph) 2 [0] j)"
proof -
  have "valid_smoother_input (pair_graph) 2 (Mat 1 [[1]]) [0]"
    by (simp add: valid_smoother_input_def pair_graph_def wf_mat_def in_range_def nrows_def)
  from smoothing_loop_terminates [OF this, of False None] show ?thesis by simp
qed


subsection \<open>Morph matrix assembler\<close>



text \<open>
  Claim C3. Whenever \<^verbatim>\<open>compute_source_morph\<close> with \<^verbatim>\<open>sparse=False\<close> returns a surface
  operator, the number of rows of its morph matrix is the sum of the lengths of the
  destination vertex lists stored with it.
\<close>

theorem morph_matrix_rows:
  assumes "compute_source_morph st ext subject_from subject_to src niter_affine niter_sdr
        spacing smooth xhemi False = (st', Inr morph)"
    and "m_kind morph = ''surface''"
  shows "\<exists>mat a. m_morph_mat morph = Some mat \<and> m_vertices_to morph = Some a \<and>
           nrows mat = sum_len (cells st' a)"
  using assms unfolding compute_source_morph_def
  by (auto simp: Let_def and_then_eq_Inr split: sum.splits prod.splits if_splits src_data.splits)

theorem morph_matrix_rows_witness:
  "snd (compute_source_morph empty_store pair_externals None ''target''
          (SrcEstimate [[0], [1]] (Some ''sample'')) [100, 100, 10] [5, 5, 3] GradeNone None
          False False) = Inr pair_morph \<and>
   (\<exists>mat a. m_morph_mat pair_morph = Some mat \<and> m_vertices_to pair_morph = Some a \<and>
       nrows mat = sum_len (cells (fst (compute_source_morph empty_store pair_externals None
          ''target'' (SrcEstimate [[0], [1]] (Some ''sample'')) [100, 100, 10] [5, 5, 3]
          GradeNone None False False)) a))"
proof -
  let ?run = "compute_source_morph empty_store pair_externals None ''target''
          (SrcEstimate [[0], [1]] (Some ''sample'')) [100, 100, 10] [5, 5, 3] GradeNone None
          False False"
  have r: "snd ?run = Inr pair_morph" by code_simp
  then have e: "?run = (fst ?run, Inr pair_morph)" by (simp add: prod_eq_iff)
  have k: "m_kind pair_morph = ''surface''" by (simp add: pair_morph_def)
  from morph_matrix_rows [OF e k] r show ?thesis by blast
qed

text \<open>
  Claim C10. With \<^verbatim>\<open>xhemi=True\<close>, \<^verbatim>\<open>_compute_morph_matrix\<close> and the public
  \<^verbatim>\<open>compute_morph_matrix\<close> leave the caller's list \<^verbatim>\<open>vertices_to\<close> reversed in the
  store, whatever they return, and change no other list; with \<^verbatim>\<open>xhemi=False\<close> the store
  is as before. When \<^verbatim>\<open>compute_source_morph\<close> is given a list as spacing and returns a
  surface operator, that list is the operator's \<^verbatim>\<open>vertices_to\<close>, reversed in place
  exactly when \<^verbatim>\<open>xhemi\<close> is set.
\<close>

theorem xhemi_reverses_vertices_to:
  "fst (u_compute_morph_matrix st edges maps vertices_from vertices_to smooth xhemi)
     = (if xhemi then st\<lparr>cells := (cells st)(vertices_to := rev (cells st vertices_to))\<rparr> else st) \<and>
   fst (compute_morph_matrix st edges maps vertices_from vertices_to smooth xhemi)
     = (if xhemi then st\<lparr>cells := (cells st)(vertices_to := rev (cells st vertices_to))\<rparr> else st) \<and>
   (compute_source_morph st ext subject_from subject_to src niter_affine niter_sdr
        (GradeList a) smooth xhemi False = (st', Inr morph) \<longrightarrow>
      m_kind morph = ''surface'' \<longrightarrow>
      m_vertices_to morph = Some a \<and> m_spacing morph = GradeList a \<and>
      st' = (if xhemi then st\<lparr>cells := (cells st)(a := rev (cells st a))\<rparr> else st))"
proof (intro conjI impI)
  show "fst (u_compute_morph_matrix st edges maps vertices_from vertices_to smooth xhemi)
     = (if xhemi then st\<lparr>cells := (cells st)(vertices_to := rev (cells st vertices_to))\<rparr> else st)"
    by (simp add: u_compute_morph_matrix_def Let_def)
  then show "fst (compute_morph_matrix st edges maps vertices_from vertices_to smooth xhemi)
     = (if xhemi then st\<lparr>cells := (cells st)(vertices_to := rev (cells st vertices_to))\<rparr> else st)"
    by (simp add: compute_morph_matrix_def)
next
  assume r: "compute_source_morph st ext subject_from subject_to src niter_affine niter_sdr
        (GradeList a) smooth xhemi False = (st', Inr morph)" and k: "m_kind morph = ''surface''"
  have g: "grade_to_vertices st subject_to (GradeList a) (ext_n_surf ext) (ext_nearest ext)
        = (st, if length (cells st a) \<noteq> 2 then Inl GradeListLength else Inr a)"
    by (simp add: grade_to_vertices_def)
  have f: "\<And>vf. fst (u_compute_morph_matrix st (ext_edges ext) (ext_maps ext) vf a smooth xhemi)
     = (if xhemi then st\<lparr>cells := (cells st)(a := rev (cells st a))\<rparr> else st)"
    by (simp add: u_compute_morph_matrix_def Let_def)
  from r k show "m_vertices_to morph = Some a"
    unfolding compute_source_morph_def g
    by (auto simp: Let_def and_then_eq_Inr split: sum.splits prod.splits if_splits src_data.splits)
  from r k show "m_spacing morph = GradeList a"
    unfolding compute_source_morph_def g
    by (auto simp: Let_def and_then_eq_Inr split: sum.splits prod.splits if_splits src_data.splits)
  from r k show "st' = (if xhemi then st\<lparr>cells := (cells st)(a := rev (cells st a))\<rparr> else st)"
    unfolding compute_source_morph_def g
    using f
    by (auto simp: Let_def and_then_eq_Inr split: sum.splits prod.splits if_splits src_data.splits
         dest!: arg_cong [where f = fst])
qed

theorem xhemi_reverses_vertices_to_witness:
  "cells (fst (u_compute_morph_matrix st01 (ext_edges pair_externals) (ext_maps pair_externals)
          [[0], [1]] 0 None True)) 0 = [[1], [0]] \<and>
   fst (compute_morph_matrix st01 (ext_edges pair_externals) (ext_maps pair_externals)
          [[0], [1]] 0 None False) = st01 \<and>
   (\<exists>morph. snd (compute_source_morph st01 pair_externals None ''target''
          (SrcEstimate [[0], [1]] (Some ''sample'')) [100, 100, 10] [5, 5, 3] (GradeList 0) None
          True False) = Inr morph \<and> m_vertices_to morph = Some 0 \<and>
      cells (fst (compute_source_morph st01 pair_externals None ''target''
          (SrcEstimate [[0], [1]] (Some ''sample'')) [100, 100, 10] [5, 5, 3] (GradeList 0) None
          True False)) 0 = [[1], [0]])"
proof -
  let ?run = "compute_source_morph st01 pair_externals None ''target''
          (SrcEstimate [[0], [1]] (Some ''sample'')) [100, 100, 10] [5, 5, 3] (GradeList 0) None
          True False"
  have c: "cells st01 0 = [[0], [1]]" by (simp add: st01_def alloc_def empty_store_def)
  have "case snd ?run of Inl err \<Rightarrow> False | Inr m \<Rightarrow> m_kind m = ''surface''"
    by code_simp
  then obtain morph where r: "snd ?run = Inr morph" and k: "m_kind morph = ''surface''"
    by (cases "snd ?run") auto
  then have e: "?run = (fst ?run, Inr morph)" by (simp add: prod_eq_iff)
  note t = xhemi_reverses_vertices_to [where st = st01 and xhemi = True and a = 0
      and st' = "fst ?run" and morph = morph and ext = pair_externals
      and edges = "ext_edges pair_externals" and maps = "ext_maps pair_externals"
      and vertices_from = "[[0], [1]]" and vertices_to = 0 and smooth = None
      and subject_from = None and subject_to = "''target''"
      and src = "SrcEstimate [[0], [1]] (Some ''sample'')"
      and niter_affine = "[100, 100, 10]" and niter_sdr = "[5, 5, 3]"]
  note f = xhemi_reverses_vertices_to [where st = st01 and xhemi = False
      and edges = "ext_edges pair_externals" and maps = "ext_maps pair_externals"
      and vertices_from = "[[0], [1]]" and vertices_to = 0 and smooth = None]
  have 1: "cells (fst (u_compute_morph_matrix st01 (ext_edges pair_externals)
          (ext_maps pair_externals) [[0], [1]] 0 None True)) 0 = [[1], [0]]"
    using t c by simp
  have 2: "fst (compute_morph_matrix st01 (ext_edges pair_externals) (ext_maps pair_externals)
          [[0], [1]] 0 None False) = st01"
    using f by simp
  have 3: "m_vertices_to morph = Some 0 \<and> cells (fst ?run) 0 = [[1], [0]]"
    using t e k c by simp
  show ?thesis using 1 2 3 r by blast
qed


subsection \<open>Applying the operator\<close>

lemma assembled_subject_from:
  assumes "compute_source_morph st ext subject_from subject_to src niter_affine niter_sdr
        spacing smooth xhemi sparse = (st', Inr morph)"
  shows "m_subject_from morph \<noteq> None"
  using assms unfolding compute_source_morph_def
  by (auto simp: Let_def and_then_eq_Inr split: sum.splits prod.splits if_splits src_data.splits
        src.splits)

lemma interpolate_affine_fresh:
  "interpolate_affine morph resolution True = Inr (affine, key) \<Longrightarrow> key = None"
  by (auto simp: interpolate_affine_def and_then_eq_Inr split: if_splits)

lemma interpolate_parts_fresh:
  "interpolate_parts lib stc morph mri_resolution True format = Inr (vols, affine, key, voxel_size)
     \<Longrightarrow> key = None"
  by (auto simp: interpolate_parts_def and_then_eq_Inr split: if_splits dest: interpolate_affine_fresh)

lemma interpolate_data_frame:
  "fst (interpolate_data lib stc morph mri_resolution True format) = morph"
proof (cases "interpolate_parts lib stc morph mri_resolution True format")
  case (Inl err)
  then show ?thesis by (simp add: interpolate_data_def)
next
  case (Inr parts)
  obtain vols affine key voxel_size where p: "parts = (vols, affine, key, voxel_size)"
    by (cases parts) auto
  with Inr have "key = None" by (auto dest: interpolate_parts_fresh)
  with Inr p show ?thesis
    by (cases voxel_size) (simp_all add: interpolate_data_def)
qed

lemma apply_morph_data_frame: "fst (apply_morph_data st lib morph stc halves) = morph"
proof -
  have "fst (case interpolate_data lib stc morph (ResBool True) True ''nifti1'' of
               (morph', Inl err) \<Rightarrow> (morph', Inl err)
             | (morph', Inr img_to) \<Rightarrow> (morph', morph_volume lib morph' stc img_to)) = morph"
    using interpolate_data_frame [of lib stc morph "ResBool True" "''nifti1''"]
    by (cases "interpolate_data lib stc morph (ResBool True) True ''nifti1''";
        cases "snd (interpolate_data lib stc morph (ResBool True) True ''nifti1'')") simp_all
  then show ?thesis
    by (cases "check_dep lib False True") (simp_all add: apply_morph_data_def)
qed

lemma call_morph_frame:
  "fst (call_morph st lib self stc halves)
     = (if m_subject_from self = None then self\<lparr>m_subject_from := stc_subject stc\<rparr> else self)"
  by (cases "stc_subject stc") (auto simp: call_morph_def Let_def apply_morph_data_frame)

lemma call_frame:
  assumes "m_subject_from self \<noteq> None"
  shows "fst (call st lib self stc_from halves as_vol mri_resolution mri_space apply_morph format)
           = self"
proof -
  have c: "fst (call_morph st lib self stc_from halves) = self"
    using assms by (auto simp: call_morph_frame)
  have "fst (as_volume st lib self stc_from halves mri_resolution space apply_morph format) = self"
    for space
    using c by (cases "call_morph st lib self stc_from halves";
                cases "snd (call_morph st lib self stc_from halves)")
               (simp_all add: as_volume_def)
  with c show ?thesis
    by (simp add: call_def Let_def case_prod_beta)
qed


lemma interpolate_data_scales_in_place:
  "get_item (m_src_data (fst (interpolate_data plain_libraries voxel_stc voxel_morph
       (ResBool True) False ''nifti1''))) ''src_affine_vox''
     = Inr (PArr (NdArray [4, 4] [1000, 0, 0, 0,  0, 1000, 0, 0,  0, 0, 1000, 0,  0, 0, 0, 1]))"
  by code_simp

text \<open>
  Claim C8. A call of an operator that \<^verbatim>\<open>compute_source_morph\<close> has returned leaves
  every attribute of the operator as it was, for every source estimate and all options,
  whether the call returns or raises. Two writes are in reach of \<^verbatim>\<open>__call__\<close>. It
  assigns \<^verbatim>\<open>self.subject_from\<close> when that attribute is None, which it never is in an
  operator from \<^verbatim>\<open>compute_source_morph\<close>, since \<^verbatim>\<open>_check_subject_from\<close> returns a
  subject or raises. And \<^verbatim>\<open>_interpolate_data\<close> scales its affine in place, which with
  \<^verbatim>\<open>mri_space=False\<close> is an array of \<^verbatim>\<open>morph.src_data\<close>; but \<^verbatim>\<open>_apply_morph_data\<close>
  calls it with \<^verbatim>\<open>mri_space=True\<close>, where the affine is the new array that \<^verbatim>\<open>np.dot\<close>
  returns.
\<close>

theorem call_leaves_operator_unchanged:
  assumes "compute_source_morph st0 ext subject_from subject_to src niter_affine niter_sdr
        spacing smooth xhemi sparse = (st1, Inr morph)"
  shows "fst (call st lib morph stc_from halves as_vol mri_resolution mri_space apply_morph format)
           = morph"
  using assms by (intro call_frame assembled_subject_from)

theorem call_leaves_operator_unchanged_witness:
  "snd (compute_source_morph empty_store pair_externals None ''target''
          (SrcEstimate [[0], [1]] (Some ''sample'')) [100, 100, 10] [5, 5, 3] GradeNone None
          False False) = Inr pair_morph \<and>
   fst (call pair_store no_libraries pair_morph pair_stc pair_halves False (ResBool False) None
          True ''nifti1'') = pair_morph \<and>
   \<not> isl (snd (call pair_store no_libraries pair_morph pair_stc pair_halves False (ResBool False)
               None True ''nifti1'')) \<and>
   snd (compute_source_morph empty_store voxel_externals None ''target'' voxel_src
          [100, 100, 10] [5, 5, 3] (GradeInt 5) None False False) = Inr voxel_morph \<and>
   fst (call empty_store plain_libraries voxel_morph voxel_stc pair_halves True (ResBool True)
          None True ''nifti1'') = voxel_morph \<and>
   \<not> isl (snd (call empty_store plain_libraries voxel_morph voxel_stc pair_halves True
               (ResBool True) None True ''nifti1''))"
proof -
  let ?surface = "compute_source_morph empty_store pair_externals None ''target''
          (SrcEstimate [[0], [1]] (Some ''sample'')) [100, 100, 10] [5, 5, 3] GradeNone None
          False False"
  let ?volume = "compute_source_morph empty_store voxel_externals None ''target'' voxel_src
          [100, 100, 10] [5, 5, 3] (GradeInt 5) None False False"
  have s: "snd ?surface = Inr pair_morph" by code_simp
  then have s': "?surface = (fst ?surface, Inr pair_morph)" by (simp add: prod_eq_iff)
  have v: "snd ?volume = Inr voxel_morph" by code_simp
  then have v': "?volume = (fst ?volume, Inr voxel_morph)" by (simp add: prod_eq_iff)
  have r: "\<not> isl (snd (call pair_store no_libraries pair_morph pair_stc pair_halves False
               (ResBool False) None True ''nifti1''))"
    "\<not> isl (snd (call empty_store plain_libraries voxel_morph voxel_stc pair_halves True
               (ResBool True) None True ''nifti1''))"
    by code_simp+
  show ?thesis
    using call_leaves_operator_unchanged [OF s'] call_leaves_operator_unchanged [OF v'] s v r
    by simp
qed

subsection \<open>Saving and reading\<close>





text \<open>
  What follows compares an operator \<open>m\<close> with an operator that differs from it in the
  two references to list objects only.
\<close>

lemma get_zooms_orig_refs [simp]:
  "get_zooms_orig (m\<lparr>m_spacing := sp, m_vertices_to := vt\<rparr>) = get_zooms_orig m"
  by (simp add: get_zooms_orig_def)

lemma morph_volumes_refs [simp]:
  "morph_volumes lib (m\<lparr>m_spacing := sp, m_vertices_to := vt\<rparr>) vols = morph_volumes lib m vols"
proof (induction vols)
  case Nil
  show ?case by (rule ext) simp
next
  case (Cons v vols)
  show ?case by (rule ext) (simp add: Cons.IH cong: option.case_cong)
qed

lemma morph_volume_refs [simp]:
  "morph_volume lib (m\<lparr>m_spacing := sp, m_vertices_to := vt\<rparr>) stc = morph_volume lib m stc"
  by (rule ext) (simp add: morph_volume_def cong: if_cong)

lemma interpolate_volumes_refs [simp]:
  "interpolate_volumes stc (m\<lparr>m_spacing := sp, m_vertices_to := vt\<rparr>) r
     = interpolate_volumes stc m r"
  by (simp add: interpolate_volumes_def cong: if_cong)

lemma interpolate_affine_refs [simp]:
  "interpolate_affine (m\<lparr>m_spacing := sp, m_vertices_to := vt\<rparr>) r space
     = interpolate_affine m r space"
  by (simp add: interpolate_affine_def cong: if_cong)

lemma interpolate_parts_refs [simp]:
  "interpolate_parts lib stc (m\<lparr>m_spacing := sp, m_vertices_to := vt\<rparr>) r space format
     = interpolate_parts lib stc m r space format"
  by (simp add: interpolate_parts_def cong: if_cong)

lemma interpolate_data_refs [simp]:
  "snd (interpolate_data lib stc (m\<lparr>m_spacing := sp, m_vertices_to := vt\<rparr>) r True format)
     = snd (interpolate_data lib stc m r True format)"
proof (cases "interpolate_parts lib stc m r True format")
  case (Inl err)
  then show ?thesis by (simp add: interpolate_data_def)
next
  case (Inr parts)
  obtain vols affine key voxel_size where p: "parts = (vols, affine, key, voxel_size)"
    by (cases parts) auto
  with Inr have "key = None" by (auto dest: interpolate_parts_fresh)
  with Inr p show ?thesis
    by (cases voxel_size) (simp_all add: interpolate_data_def)
qed

lemma snd_apply_morph_data:
  "snd (apply_morph_data st lib morph stc halves)
     = (if stc_subject stc \<noteq> None \<and> stc_subject stc \<noteq> m_subject_from morph
        then Inl SubjectMismatch
        else if m_kind morph = ''volume'' then
          and_then (check_dep lib False True) (\<lambda>_.
          and_then (snd (interpolate_data lib stc morph (ResBool True) True ''nifti1''))
            (morph_volume lib morph stc))
        else if m_kind morph \<noteq> ''surface'' then Inl AssertionError
        else morph_surface st morph stc halves)"
proof -
  have "snd (case interpolate_data lib stc morph (ResBool True) True ''nifti1'' of
               (morph', Inl err) \<Rightarrow> (morph', Inl err)
             | (morph', Inr img_to) \<Rightarrow> (morph', morph_volume lib morph' stc img_to))
        = and_then (snd (interpolate_data lib stc morph (ResBool True) True ''nifti1''))
            (morph_volume lib morph stc)"
    using interpolate_data_frame [of lib stc morph "ResBool True" "''nifti1''"]
    by (cases "interpolate_data lib stc morph (ResBool True) True ''nifti1''";
        cases "snd (interpolate_data lib stc morph (ResBool True) True ''nifti1'')") simp_all
  then show ?thesis
    by (cases "check_dep lib False True") (simp_all add: apply_morph_data_def)
qed





lemma stc_as_volume_refs [simp]:
  "stc_as_volume lib (m\<lparr>m_spacing := sp, m_vertices_to := vt\<rparr>) stc r space format
     = stc_as_volume lib m stc r space format"
  by (simp add: stc_as_volume_def cong: if_cong resolution.case_cong)








subsection \<open>Vector-valued data\<close>

lemma length_chunks [simp]: "length (chunks n c xs) = n"
  by (induction n arbitrary: xs) simp_all

lemma chunks_concat:
  "length rs = n \<Longrightarrow> \<forall>r\<in>set rs. length r = c \<Longrightarrow> chunks n c (concat rs) = rs"
  by (induction rs arbitrary: n) auto

lemma chunks_nth: "d < m \<Longrightarrow> chunks m t xs ! d = take t (drop (d * t) xs)"
proof (induction m arbitrary: xs d)
  case 0
  then show ?case by simp
next
  case (Suc m)
  show ?case
  proof (cases d)
    case 0
    then show ?thesis by simp
  next
    case (Suc d')
    with Suc.prems have "d' < m" by simp
    from Suc.IH [OF this, of "drop t xs"] Suc show ?thesis
      by (simp add: add.commute)
  qed
qed

lemma length_concat_uniform:
  "\<forall>r\<in>set v. length r = t \<Longrightarrow> length (concat v) = length v * t"
  by (induction v) simp_all

lemma nth_concat_uniform:
  "\<forall>r\<in>set v. length r = t \<Longrightarrow> d < length v \<Longrightarrow> k < t \<Longrightarrow> concat v ! (d * t + k) = v ! d ! k"
proof (induction v arbitrary: d)
  case Nil
  then show ?case by simp
next
  case (Cons r v)
  show ?case
  proof (cases d)
    case 0
    with Cons.prems show ?thesis by (simp add: nth_append)
  next
    case (Suc d')
    with Cons.prems have "concat v ! (d' * t + k) = v ! d' ! k"
      by (intro Cons.IH) simp_all
    with Suc Cons.prems show ?thesis by (simp add: nth_append)
  qed
qed

lemma concat_concat_map: "concat (concat xs) = concat (map concat xs)"
  by (induction xs) simp_all

lemma chunk_of_map:
  assumes "d < m"
  shows "chunks m t (map f [0..<m * t]) ! d = map (\<lambda>k. f (d * t + k)) [0..<t]"
proof -
  have le: "d * t + t \<le> m * t"
  proof -
    have "Suc d * t \<le> m * t" using assms by (intro mult_le_mono1) simp
    then show ?thesis by (simp add: add.commute)
  qed
  have "take t (drop (d * t) [0..<m * t]) = [d * t..<d * t + t]"
    using le by (simp add: take_upt)
  then have "chunks m t (map f [0..<m * t]) ! d = map f [d * t..<d * t + t]"
    using assms by (simp add: chunks_nth take_map drop_map)
  also have "\<dots> = map (\<lambda>k. f (d * t + k)) [0..<t]"
    by (intro nth_equalityI) (simp_all add: add.commute)
  finally show ?thesis .
qed

lemma nrows_astype [simp]: "nrows (astype dt m) = nrows m"
  by (cases dt) (simp_all add: astype_def nrows_def)

lemma ncols_astype [simp]: "ncols (astype dt m) = ncols m"
  by (cases dt) (simp_all add: astype_def)

lemma slice3_stack3:
  assumes "d < length ms" "nrows (ms ! d) = n" "ncols (ms ! d) = t"
  shows "slice3 (stack3 dt n t ms) d = Inr (astype dt (ms ! d))"
proof -
  let ?m = "astype dt (ms ! d)"
  have "map (\<lambda>i. mrows ?m ! i) [0..<n] = mrows ?m"
    using assms(2) map_nth [of "mrows ?m"] nrows_astype [of dt "ms ! d"]
    by (simp add: nrows_def)
  then have "Mat t (map (\<lambda>i. mrows ?m ! i) [0..<n]) = ?m"
    using assms(3) ncols_astype [of dt "ms ! d"] by (cases ?m) simp
  then show ?thesis using assms(1)
    by (simp add: slice3_def stack3_def comp_def)
qed

lemma morph_dim_Inr:
  assumes "morph_dim a d idx_use e smooth n_vertices nearest maps = Inr r"
  shows "\<exists>s. slice3 a d = Inr s \<and>
           morph_buffer (Dense s) idx_use e smooth n_vertices nearest maps = Inr (Dense r) \<and>
           nrows r = length nearest \<and> ncols r = snd (snd (a3_shape a))"
  using assms
  by (auto simp: morph_dim_def morph_buffer_def and_then_eq_Inr split: if_splits)

lemma morph_vector_slices:
  assumes sa: "a3_shape a = (n, c, t)" and wf: "wf_arr3 b" and sh: "a3_shape b = (n, 3, t)"
    and nc: "ncols morph_mat = n"
  shows "\<exists>z. morph_vector morph_mat (Dense3 a) (Dense3 b) = Inr (Dense3 z) \<and>
           a3_shape z = (nrows morph_mat, 3, t) \<and>
           (\<forall>d<3. \<exists>s r. slice3 b d = Inr s \<and> morph_scalar morph_mat (Dense s) = Inr (Dense r) \<and>
                     slice3 z d = Inr r)"
proof -
  let ?items = "a3_items b"
  let ?M = "mrows morph_mat"
  from wf sh have len: "length ?items = n"
    and blk: "\<And>v. v \<in> set ?items \<Longrightarrow> length v = 3 \<and> (\<forall>r\<in>set v. length r = t)"
    by (auto simp: wf_arr3_def list_all_iff)
  have cl: "\<forall>r\<in>set (map concat ?items). length r = 3 * t"
  proof
    fix r assume "r \<in> set (map concat ?items)"
    then obtain v where v: "v \<in> set ?items" "r = concat v" by auto
    from blk [OF v(1)] have "length v = 3" "\<forall>r\<in>set v. length r = t" by simp_all
    with length_concat_uniform [of v t] v(2) show "length r = 3 * t" by simp
  qed
  let ?x = "Mat (3 * t) (map concat ?items)"
  have fl: "flat (Dense3 b) = concat (map concat ?items)"
    by (simp add: flat_def concat_concat_map)
  have "length (concat (map concat ?items)) = n * (3 * t)"
    using length_concat_uniform [OF cl] len by simp
  moreover have "chunks n (3 * t) (concat (map concat ?items)) = map concat ?items"
    using len cl by (intro chunks_concat) simp_all
  ultimately have rx: "reshape2 (flat (Dense3 b)) n (3 * t) = Inr ?x"
    by (simp add: reshape2_def fl)
  let ?f = "\<lambda>r j. dot r (col ?x j)"
  let ?yrows = "map (\<lambda>r. map (?f r) [0..<3 * t]) ?M"
  have my: "mat_mul morph_mat ?x = Inr (Mat (3 * t) ?yrows)"
    using nc len by (simp add: mat_mul_def nrows_def)
  have "length (concat ?yrows) = nrows morph_mat * (3 * t)"
    by (subst length_concat_uniform [where t = "3 * t"]) (auto simp: nrows_def)
  moreover have "chunks (nrows morph_mat) (3 * t) (concat ?yrows) = ?yrows"
    by (intro chunks_concat) (auto simp: nrows_def)
  ultimately have rz: "reshape3 (concat ?yrows) (nrows morph_mat) 3 t
        = Inr (Arr3 FloatType (nrows morph_mat, 3, t) (map (chunks 3 t) ?yrows))" (is "_ = Inr ?z")
    by (simp add: reshape3_def)
  have mv: "morph_vector morph_mat (Dense3 a) (Dense3 b) = Inr (Dense3 ?z)"
    using sa rx my rz by (simp add: morph_vector_def)
  have sl: "\<exists>s r. slice3 b d = Inr s \<and> morph_scalar morph_mat (Dense s) = Inr (Dense r) \<and>
                     slice3 ?z d = Inr r" if d: "d < 3" for d
  proof -
    let ?s = "Mat t (map (\<lambda>v. v ! d) ?items)"
    let ?r = "Mat t (map (\<lambda>r. map (\<lambda>k. dot r (col ?s k)) [0..<t]) ?M)"
    have s: "slice3 b d = Inr ?s" using sh d by (simp add: slice3_def)
    have ms: "morph_scalar morph_mat (Dense ?s) = Inr (Dense ?r)"
      using nc len by (simp add: morph_scalar_def mat_mul_def nrows_def)
    have cols: "col ?x (d * t + k) = col ?s k" if "k < t" for k
      using blk d that by (auto simp: col_def nth_concat_uniform)
    have "chunks 3 t (map (?f r) [0..<3 * t]) ! d = map (\<lambda>k. dot r (col ?s k)) [0..<t]" for r
    proof -
      have "chunks 3 t (map (?f r) [0..<3 * t]) ! d = map (\<lambda>k. ?f r (d * t + k)) [0..<t]"
        using d by (rule chunk_of_map)
      also have "\<dots> = map (\<lambda>k. dot r (col ?s k)) [0..<t]"
        by (rule map_cong [OF refl]) (use cols in auto)
      finally show ?thesis .
    qed
    then have "map (\<lambda>v. v ! d) (map (chunks 3 t) ?yrows) = mrows ?r"
      by (simp add: comp_def)
    then have "slice3 ?z d = Inr ?r" using d by (simp add: slice3_def)
    with s ms show ?thesis by blast
  qed
  show ?thesis using mv sl by (intro exI [of _ ?z]) simp
qed



lemma morph_vector_Inr:
  assumes "morph_vector morph_mat whole data = Inr out"
  shows "\<exists>w z. whole = Dense3 w \<and> out = Dense3 z \<and>
           a3_shape z = (nrows morph_mat, 3, snd (snd (a3_shape w)))"
proof -
  from assms obtain w where w: "whole = Dense3 w"
    by (cases whole) (simp_all add: morph_vector_def)
  obtain n c t where s: "a3_shape w = (n, c, t)" by (cases "a3_shape w") auto
  from assms w s obtain z where "out = Dense3 z" "a3_shape z = (nrows morph_mat, 3, t)"
    by (auto simp: morph_vector_def reshape3_def and_then_eq_Inr split: if_splits)
  with w s show ?thesis by simp
qed

lemma surface_vector_data:
  assumes "morph_surface st morph stc_from halves = Inr out"
    and "stc_klass stc_from = VectorSourceEstimate"
  shows "\<exists>morph_mat a data. m_morph_mat morph = Some morph_mat \<and> m_vertices_to morph = Some a \<and>
           select_data (cells st a) (stc_data stc_from) halves = Inr data \<and>
           morph_vector morph_mat (stc_data stc_from) data = Inr (stc_data out) \<and>
           stc_klass out = VectorSourceEstimate \<and> stc_vertices out = cells st a"
proof -
  from assms obtain vf where vf: "m_src_data morph = SurfData vf"
    by (cases "m_src_data morph") (auto simp: morph_surface_def split: if_splits)
  from assms vf obtain a where a: "m_vertices_to morph = Some a"
    by (cases "m_vertices_to morph")
       (auto simp: morph_surface_def split: if_splits option.splits)
  from assms vf a obtain data where d: "select_data (cells st a) (stc_data stc_from) halves = Inr data"
    by (cases "select_data (cells st a) (stc_data stc_from) halves")
       (auto simp: morph_surface_def Let_def split: if_splits option.splits)
  from assms vf a d obtain morph_mat where m: "m_morph_mat morph = Some morph_mat"
    by (cases "m_morph_mat morph")
       (auto simp: morph_surface_def Let_def split: if_splits option.splits)
  from assms vf a d m have "morph_vector morph_mat (stc_data stc_from) data = Inr (stc_data out) \<and>
           stc_klass out = VectorSourceEstimate \<and> stc_vertices out = cells st a"
    by (cases "morph_vector morph_mat (stc_data stc_from) data")
       (auto simp: morph_surface_def Let_def split: if_splits option.splits)
  with a d m show ?thesis by blast
qed

lemma assembled_rows:
  assumes "compute_source_morph st ext subject_from subject_to src niter_affine niter_sdr
        spacing smooth xhemi False = (st', Inr morph)"
    and "m_kind morph = ''surface''"
  shows "\<exists>mat a. m_morph_mat morph = Some mat \<and> m_vertices_to morph = Some a \<and>
           nrows mat = sum_len (cells st' a)"
  using assms unfolding compute_source_morph_def
  by (auto simp: Let_def and_then_eq_Inr split: sum.splits prod.splits if_splits src_data.splits)

text \<open>
  Claim C7 as stated fails in \<^verbatim>\<open>_morph_buffer\<close> for data of an integer type: the
  result is allocated with the dtype of the input, so the slices of the output hold the
  results of the slices alone without their fractions. Two vertices joined by an edge,
  one smoothing pass, the first destination vertex: the first component 1 and 2 of the
  two vertices is morphed alone to 3/2, and the output holds 1.
\<close>

theorem vector_integer_counterexample:
  "morph_buffer (Dense3 (Arr3 IntType (2, 3, 1) [[[1], [2], [2]], [[2], [2], [3]]])) [0, 1]
       pair_graph (Some 1) 2 [0] (eye 2)
     = Inr (Dense3 (Arr3 IntType (1, 3, 1) [[[1], [2], [2]]])) \<and>
   slice3 (Arr3 IntType (2, 3, 1) [[[1], [2], [2]], [[2], [2], [3]]]) 0 = Inr (Mat 1 [[1], [2]]) \<and>
   morph_buffer (Dense (Mat 1 [[1], [2]])) [0, 1] pair_graph (Some 1) 2 [0] (eye 2)
     = Inr (Dense (Mat 1 [[3 / 2]])) \<and>
   slice3 (Arr3 IntType (1, 3, 1) [[[1], [2], [2]]]) 0 = Inr (Mat 1 [[1]])"
  by code_simp

text \<open>
  Claim C7, as amended. Whenever \<^verbatim>\<open>_morph_buffer\<close> returns on a buffer with three
  dimensions, the result has the dtype of the input, one row block for each destination
  vertex, three components and the sample count of the input; for floating-point data
  its slice \<^verbatim>\<open>[:, d, :]\<close> is what \<^verbatim>\<open>_morph_buffer\<close> returns on the slice
  \<^verbatim>\<open>[:, d, :]\<close> of the input alone, and for every dtype it is that matrix as an array
  of the dtype holds it. Where
  \<^verbatim>\<open>_apply_morph_data\<close> multiplies vector data of shape \<open>(n, 3, t)\<close> by a morph matrix
  with \<open>n\<close> columns, the result has the shape (rows of the matrix, 3, \<open>t\<close>), and each of
  its component slices is the product of the matrix with that slice of the input. Every
  successful \<^verbatim>\<open>_apply_morph_data\<close> of a surface operator on a vector source estimate
  returns the outcome of that multiplication on the data it selected, on the destination
  vertices of the operator; the rows of the matrix of an operator from
  \<^verbatim>\<open>compute_source_morph\<close> with \<^verbatim>\<open>sparse=False\<close> are as many as its destination vertices.
\<close>

theorem vector_components_morphed_independently:
  "(morph_buffer (Dense3 a) idx_use e smooth n_vertices nearest maps = Inr out \<longrightarrow>
      (\<exists>z. out = Dense3 z \<and> a3_dtype z = a3_dtype a \<and>
         a3_shape z = (length nearest, 3, snd (snd (a3_shape a))) \<and>
         (\<forall>d<3. \<exists>s r. slice3 a d = Inr s \<and>
            morph_buffer (Dense s) idx_use e smooth n_vertices nearest maps = Inr (Dense r) \<and>
            slice3 z d = Inr (astype (a3_dtype a) r) \<and>
            (a3_dtype a = FloatType \<longrightarrow> slice3 z d = Inr r)))) \<and>
   (a3_shape w = (n, c, t) \<longrightarrow> wf_arr3 b \<longrightarrow> a3_shape b = (n, 3, t) \<longrightarrow>
    ncols morph_mat = n \<longrightarrow>
      (\<exists>z. morph_vector morph_mat (Dense3 w) (Dense3 b) = Inr (Dense3 z) \<and>
         a3_shape z = (nrows morph_mat, 3, t) \<and>
         (\<forall>d<3. \<exists>s r. slice3 b d = Inr s \<and>
            morph_scalar morph_mat (Dense s) = Inr (Dense r) \<and> slice3 z d = Inr r))) \<and>
   (snd (apply_morph_data st lib morph stc_from halves) = Inr stc_to \<longrightarrow>
    stc_klass stc_from = VectorSourceEstimate \<longrightarrow> m_kind morph = ''surface'' \<longrightarrow>
      (\<exists>mat vt data x z. m_morph_mat morph = Some mat \<and> m_vertices_to morph = Some vt \<and>
         select_data (cells st vt) (stc_data stc_from) halves = Inr data \<and>
         morph_vector mat (stc_data stc_from) data = Inr (stc_data stc_to) \<and>
         stc_data stc_from = Dense3 x \<and> stc_data stc_to = Dense3 z \<and>
         a3_shape z = (nrows mat, 3, snd (snd (a3_shape x))) \<and>
         stc_klass stc_to = VectorSourceEstimate \<and> stc_vertices stc_to = cells st vt \<and>
         (compute_source_morph st0 ext subject_from subject_to src niter_affine niter_sdr
              spacing smooth0 xhemi False = (st, Inr morph) \<longrightarrow>
            nrows mat = sum_len (cells st vt))))"
proof (intro conjI impI)
  assume "morph_buffer (Dense3 a) idx_use e smooth n_vertices nearest maps = Inr out"
  then obtain r0 r1 r2 where
    r: "morph_dim a 0 idx_use e smooth n_vertices nearest maps = Inr r0"
       "morph_dim a 1 idx_use e smooth n_vertices nearest maps = Inr r1"
       "morph_dim a 2 idx_use e smooth n_vertices nearest maps = Inr r2"
    and out: "out = Dense3 (stack3 (a3_dtype a) (length nearest) (snd (snd (a3_shape a)))
                          [r0, r1, r2])"
    by (auto simp: morph_buffer_def and_then_eq_Inr)
  let ?ms = "[r0, r1, r2]"
  let ?z = "stack3 (a3_dtype a) (length nearest) (snd (snd (a3_shape a))) ?ms"
  have each: "\<exists>s r. slice3 a d = Inr s \<and>
            morph_buffer (Dense s) idx_use e smooth n_vertices nearest maps = Inr (Dense r) \<and>
            slice3 ?z d = Inr (astype (a3_dtype a) r) \<and>
            (a3_dtype a = FloatType \<longrightarrow> slice3 ?z d = Inr r)" if "d < 3" for d
  proof -
    from that consider "d = 0" | "d = 1" | "d = 2" by linarith
    then have "morph_dim a d idx_use e smooth n_vertices nearest maps = Inr (?ms ! d)"
      using r by cases simp_all
    from morph_dim_Inr [OF this] obtain s where
      s: "slice3 a d = Inr s"
         "morph_buffer (Dense s) idx_use e smooth n_vertices nearest maps = Inr (Dense (?ms ! d))"
         "nrows (?ms ! d) = length nearest" "ncols (?ms ! d) = snd (snd (a3_shape a))"
      by blast
    have z: "slice3 ?z d = Inr (astype (a3_dtype a) (?ms ! d))"
      using that s(3,4) by (intro slice3_stack3) simp_all
    have "astype FloatType (?ms ! d) = ?ms ! d" by (simp add: astype_def)
    with z have "a3_dtype a = FloatType \<longrightarrow> slice3 ?z d = Inr (?ms ! d)"
      by (cases "a3_dtype a") simp_all
    with s(1,2) z show ?thesis by blast
  qed
  have "a3_shape ?z = (length nearest, 3, snd (snd (a3_shape a)))" "a3_dtype ?z = a3_dtype a"
    by (simp_all add: stack3_def)
  with out each
  show "\<exists>z. out = Dense3 z \<and> a3_dtype z = a3_dtype a \<and>
         a3_shape z = (length nearest, 3, snd (snd (a3_shape a))) \<and>
         (\<forall>d<3. \<exists>s r. slice3 a d = Inr s \<and>
            morph_buffer (Dense s) idx_use e smooth n_vertices nearest maps = Inr (Dense r) \<and>
            slice3 z d = Inr (astype (a3_dtype a) r) \<and>
            (a3_dtype a = FloatType \<longrightarrow> slice3 z d = Inr r))"
    by blast
next
  assume "a3_shape w = (n, c, t)" "wf_arr3 b" "a3_shape b = (n, 3, t)" "ncols morph_mat = n"
  then show "\<exists>z. morph_vector morph_mat (Dense3 w) (Dense3 b) = Inr (Dense3 z) \<and>
         a3_shape z = (nrows morph_mat, 3, t) \<and>
         (\<forall>d<3. \<exists>s r. slice3 b d = Inr s \<and>
            morph_scalar morph_mat (Dense s) = Inr (Dense r) \<and> slice3 z d = Inr r)"
    by (rule morph_vector_slices)
next
  assume ap: "snd (apply_morph_data st lib morph stc_from halves) = Inr stc_to"
    and k: "stc_klass stc_from = VectorSourceEstimate" "m_kind morph = ''surface''"
  from ap k(2) have "morph_surface st morph stc_from halves = Inr stc_to"
    by (simp add: snd_apply_morph_data split: if_splits)
  from surface_vector_data [OF this k(1)] obtain mat vt data where
    m: "m_morph_mat morph = Some mat" "m_vertices_to morph = Some vt"
       "select_data (cells st vt) (stc_data stc_from) halves = Inr data"
       "morph_vector mat (stc_data stc_from) data = Inr (stc_data stc_to)"
       "stc_klass stc_to = VectorSourceEstimate" "stc_vertices stc_to = cells st vt"
    by blast
  from morph_vector_Inr [OF m(4)] obtain x z where
    z: "stc_data stc_from = Dense3 x" "stc_data stc_to = Dense3 z"
       "a3_shape z = (nrows mat, 3, snd (snd (a3_shape x)))"
    by blast
  have "nrows mat = sum_len (cells st vt)"
    if "compute_source_morph st0 ext subject_from subject_to src niter_affine niter_sdr
              spacing smooth0 xhemi False = (st, Inr morph)"
    using assembled_rows [OF that k(2)] m(1,2) by auto
  with m z
  show "\<exists>mat vt data x z. m_morph_mat morph = Some mat \<and> m_vertices_to morph = Some vt \<and>
         select_data (cells st vt) (stc_data stc_from) halves = Inr data \<and>
         morph_vector mat (stc_data stc_from) data = Inr (stc_data stc_to) \<and>
         stc_data stc_from = Dense3 x \<and> stc_data stc_to = Dense3 z \<and>
         a3_shape z = (nrows mat, 3, snd (snd (a3_shape x))) \<and>
         stc_klass stc_to = VectorSourceEstimate \<and> stc_vertices stc_to = cells st vt \<and>
         (compute_source_morph st0 ext subject_from subject_to src niter_affine niter_sdr
              spacing smooth0 xhemi False = (st, Inr morph) \<longrightarrow>
            nrows mat = sum_len (cells st vt))"
    by blast
qed


theorem vector_components_morphed_independently_witness:
  "(\<exists>z. Dense3 (Arr3 FloatType (2, 3, 1) [[[1], [2], [3]], [[1], [2], [3]]]) = Dense3 z \<and>
       a3_dtype z = FloatType \<and> a3_shape z = (2, 3, 1) \<and>
       (\<forall>d<3. \<exists>s r. slice3 (Arr3 FloatType (1, 3, 1) [[[1], [2], [3]]]) d = Inr s \<and>
          morph_buffer (Dense s) [0] pair_graph None 2 [0, 1] (eye 2) = Inr (Dense r) \<and>
          slice3 z d = Inr r)) \<and>
   (\<exists>z. morph_vector (Mat 2 [[1, 0], [1, 1]]) (Dense3 vector_data) (Dense3 vector_data)
           = Inr (Dense3 z) \<and>
       a3_shape z = (2, 3, 1) \<and>
       (\<forall>d<3. \<exists>s r. slice3 vector_data d = Inr s \<and>
          morph_scalar (Mat 2 [[1, 0], [1, 1]]) (Dense s) = Inr (Dense r) \<and> slice3 z d = Inr r)) \<and>
   (\<exists>st mat vt. compute_source_morph empty_store pair_externals None ''target''
          (SrcEstimate [[0], [1]] (Some ''sample'')) [100, 100, 10] [5, 5, 3] GradeNone None
          False False = (st, Inr pair_morph) \<and>
       m_morph_mat pair_morph = Some mat \<and> m_vertices_to pair_morph = Some vt \<and>
       snd (apply_morph_data st no_libraries pair_morph vector_stc vector_halves)
         = Inr \<lparr>stc_klass = VectorSourceEstimate,
                stc_data = Dense3 (Arr3 FloatType (4, 3, 1)
                  [[[1], [2], [3]], [[1], [2], [3]], [[4], [5], [6]], [[4], [5], [6]]]),
                stc_vertices = [[0, 1], [0, 1]], stc_tmin = 0, stc_tstep = 1,
                stc_subject = Some ''target''\<rparr> \<and>
       nrows mat = 4 \<and> sum_len (cells st vt) = 4)"
proof -
  let ?run = "compute_source_morph empty_store pair_externals None ''target''
          (SrcEstimate [[0], [1]] (Some ''sample'')) [100, 100, 10] [5, 5, 3] GradeNone None
          False False"
  let ?out = "\<lparr>stc_klass = VectorSourceEstimate,
                stc_data = Dense3 (Arr3 FloatType (4, 3, 1)
                  [[[1], [2], [3]], [[1], [2], [3]], [[4], [5], [6]], [[4], [5], [6]]]),
                stc_vertices = [[0, 1], [0, 1]], stc_tmin = 0, stc_tstep = 1,
                stc_subject = Some ''target''\<rparr>"
  have run: "morph_buffer (Dense3 (Arr3 FloatType (1, 3, 1) [[[1], [2], [3]]])) [0] pair_graph None
        2 [0, 1] (eye 2)
      = Inr (Dense3 (Arr3 FloatType (2, 3, 1) [[[1], [2], [3]], [[1], [2], [3]]]))"
    by code_simp
  have wf: "a3_shape vector_data = (2, 3, 1)" "wf_arr3 vector_data"
    "ncols (Mat 2 [[1, 0], [1, 1]]) = 2" "nrows (Mat 2 [[1, 0], [1, 1]]) = 2"
    by (simp_all add: wf_arr3_def vector_data_def)
  have r: "snd ?run = Inr pair_morph" by code_simp
  then have e: "?run = (fst ?run, Inr pair_morph)" by (simp add: prod_eq_iff)
  have ap: "snd (apply_morph_data (fst ?run) no_libraries pair_morph vector_stc vector_halves) = Inr ?out"
    by code_simp
  have k: "stc_klass vector_stc = VectorSourceEstimate" "m_kind pair_morph = ''surface''"
    "m_morph_mat pair_morph = Some (Mat 2 [[1, 0], [1, 0], [0, 1], [0, 1]])"
    "m_vertices_to pair_morph = Some 0"
    by (simp_all add: vector_stc_def pair_morph_def)
  note t = vector_components_morphed_independently
    [where a = "Arr3 FloatType (1, 3, 1) [[[1], [2], [3]]]" and idx_use = "[0]" and e = pair_graph
      and smooth = None and n_vertices = 2 and nearest = "[0, 1]" and maps = "eye 2"
      and out = "Dense3 (Arr3 FloatType (2, 3, 1) [[[1], [2], [3]], [[1], [2], [3]]])"
      and w = vector_data and c = 3
      and b = vector_data and n = 2 and t = 1 and morph_mat = "Mat 2 [[1, 0], [1, 1]]"
      and st = "fst ?run" and lib = no_libraries and morph = pair_morph
      and stc_from = vector_stc and halves = vector_halves and stc_to = ?out
      and ?st0.0 = empty_store and ext = pair_externals and subject_from = None
      and subject_to = "''target''" and src = "SrcEstimate [[0], [1]] (Some ''sample'')"
      and niter_affine = "[100, 100, 10]" and niter_sdr = "[5, 5, 3]" and spacing = GradeNone
      and ?smooth0.0 = None and xhemi = False]
  have 1: "\<exists>z. Dense3 (Arr3 FloatType (2, 3, 1) [[[1], [2], [3]], [[1], [2], [3]]]) = Dense3 z \<and>
       a3_dtype z = FloatType \<and> a3_shape z = (2, 3, 1) \<and>
       (\<forall>d<3. \<exists>s r. slice3 (Arr3 FloatType (1, 3, 1) [[[1], [2], [3]]]) d = Inr s \<and>
          morph_buffer (Dense s) [0] pair_graph None 2 [0, 1] (eye 2) = Inr (Dense r) \<and>
          slice3 z d = Inr r)"
    using t run by auto
  have 2: "\<exists>z. morph_vector (Mat 2 [[1, 0], [1, 1]]) (Dense3 vector_data) (Dense3 vector_data)
           = Inr (Dense3 z) \<and>
       a3_shape z = (2, 3, 1) \<and>
       (\<forall>d<3. \<exists>s r. slice3 vector_data d = Inr s \<and>
          morph_scalar (Mat 2 [[1, 0], [1, 1]]) (Dense s) = Inr (Dense r) \<and> slice3 z d = Inr r)"
    using t wf by auto
  have 3: "nrows (Mat 2 [[1, 0], [1, 0], [0, 1], [0, 1]]) = 4 \<and> sum_len (cells (fst ?run) 0) = 4"
    using t ap k e by auto
  show ?thesis using 1 2 3 e ap k(3,4) by blast
qed

end
